theory Spec2Isabelle
  imports Main "HOL-Library.Word"
begin

section \<open>Data model of query.go\<close>

text \<open>
  Values stored in a Go \<^verbatim>\<open>map[string]interface{}\<close>. Only values that
  \<^verbatim>\<open>json.Marshal\<close> can encode occur in the options of a query, so marshalling never
  fails on them; a nil slice held in an interface marshals as \<^verbatim>\<open>null\<close>.
\<close>

datatype gval =
    VNull
  | VStr string
  | VBool bool
  | VNum int
  | VList "gval list"
  | VObj "(string \<times> gval) list"

text \<open>The options map that is built for a request and mutated in place while it is served.\<close>

type_synonym qmap = "string \<rightharpoonup> gval"

record n1qlCache =
  name :: string
  encodedPlan :: string

record n1qlError =
  Code :: "32 word"
  Message :: string

record n1qlResponseMetrics =
  ElapsedTimeStr :: string
  ExecutionTimeStr :: string
  ResultCountW :: nat
  ResultSizeW :: nat
  MutationCountW :: nat
  SortCountW :: nat
  ErrorCountW :: nat
  WarningCountW :: nat

text \<open>A row is a \<^verbatim>\<open>json.RawMessage\<close>: the bytes of one result.\<close>

type_synonym raw = string

record n1qlResponse =
  RequestId :: string
  ClientContextId :: string
  Results :: "raw list"
  Errors :: "n1qlError list"
  Status :: string
  Metrics :: n1qlResponseMetrics

text \<open>
  Go errors. \<open>N1qlMultiError\<close> is the type \<^verbatim>\<open>n1qlMultiError\<close>, a slice of
  \<^verbatim>\<open>n1qlError\<close>; the others are the errors of the libraries the code calls
  (the provider, the JSON decoder, \<^verbatim>\<open>time.ParseDuration\<close>, the context).
\<close>

datatype error =
    ProviderError string
  | JsonError string
  | DurationError string
  | N1qlMultiError "n1qlError list"
  | Canceled
  | DeadlineExceeded

text \<open>A call either returns or panics; a panic carries its message.\<close>

datatype 'a outcome = Ret 'a | Panic string

text \<open>\<^verbatim>\<open>time.Duration\<close> values are nanosecond counts; they are only compared here.\<close>

type_synonym duration = int

record QueryResultMetrics =
  ElapsedTime :: duration
  ExecutionTime :: duration
  ResultCount :: nat
  ResultSize :: nat
  MutationCount :: nat
  SortCount :: nat
  ErrorCount :: nat
  WarningCount :: nat

record n1qlResults =
  closed :: bool
  index :: int
  rows :: "raw list"
  err :: "error option"
  requestId :: string
  clientContextId :: string
  metrics :: QueryResultMetrics
  sourceAddr :: string

section \<open>The result cursor\<close>

text \<open>
  \<^verbatim>\<open>NextBytes\<close>: a retained error yields nil without closing; at the end of the rows
  the cursor is closed and nil is returned; otherwise the index moves on and the row
  under it is returned. Indexing a Go slice at a negative position panics.
\<close>

definition NextBytes :: "n1qlResults \<Rightarrow> raw option outcome \<times> n1qlResults" where
  "NextBytes r =
     (if err r \<noteq> None then (Ret None, r)
      else if index r + 1 \<ge> int (length (rows r)) then (Ret None, r\<lparr>closed := True\<rparr>)
      else let r' = r\<lparr>index := index r + 1\<rparr>
           in if index r' < 0 then (Panic ''index out of range'', r')
              else (Ret (Some (rows r' ! nat (index r'))), r'))"

text \<open>
  \<^verbatim>\<open>Next\<close> decodes the next row into the caller's value. \<open>um\<close> stands for
  \<^verbatim>\<open>json.Unmarshal\<close> at the type of the target: it returns the error, if any,
  and the target as the decoder left it.
\<close>

definition Next ::
  "(raw \<Rightarrow> 'v \<Rightarrow> error option \<times> 'v) \<Rightarrow> n1qlResults \<Rightarrow> 'v \<Rightarrow> bool outcome \<times> n1qlResults \<times> 'v" where
  "Next um r v =
     (if err r \<noteq> None then (Ret False, r, v)
      else case NextBytes r of
             (Panic p, r1) \<Rightarrow> (Panic p, r1, v)
           | (Ret None, r1) \<Rightarrow> (Ret False, r1, v)
           | (Ret (Some row), r1) \<Rightarrow>
               (let (e, v') = um row v; r2 = r1\<lparr>err := e\<rparr>
                in if e \<noteq> None then (Ret False, r2, v') else (Ret True, r2, v')))"

definition Close :: "n1qlResults \<Rightarrow> error option \<times> n1qlResults" where
  "Close r = (err r, r\<lparr>closed := True\<rparr>)"

text \<open>
  \<^verbatim>\<open>One\<close>: when \<^verbatim>\<open>Next\<close> fails the cursor is closed and a retained error is
  returned; in every other case the cursor is closed (again) and nil is returned.
\<close>

definition One ::
  "(raw \<Rightarrow> 'v \<Rightarrow> error option \<times> 'v) \<Rightarrow> n1qlResults \<Rightarrow> 'v \<Rightarrow> error option outcome \<times> n1qlResults \<times> 'v" where
  "One um r v =
     (case Next um r v of
        (Panic p, r1, v1) \<Rightarrow> (Panic p, r1, v1)
      | (Ret ok, r1, v1) \<Rightarrow>
          (if \<not> ok then
             (case Close r1 of
                (Some e, r2) \<Rightarrow> (Ret (Some e), r2, v1)
              | (None, r2) \<Rightarrow> (Ret None, snd (Close r2), v1))
           else (Ret None, snd (Close r1), v1)))"

definition SourceEndpoint :: "n1qlResults \<Rightarrow> string" where
  "SourceEndpoint r = sourceAddr r"

definition n1qlResults_RequestId :: "n1qlResults \<Rightarrow> string outcome" where
  "n1qlResults_RequestId r =
     (if \<not> closed r then Panic ''Result must be closed before accessing meta-data''
      else Ret (requestId r))"

definition n1qlResults_ClientContextId :: "n1qlResults \<Rightarrow> string outcome" where
  "n1qlResults_ClientContextId r =
     (if \<not> closed r then Panic ''Result must be closed before accessing meta-data''
      else Ret (clientContextId r))"

definition n1qlResults_Metrics :: "n1qlResults \<Rightarrow> QueryResultMetrics outcome" where
  "n1qlResults_Metrics r =
     (if \<not> closed r then Panic ''Result must be closed before accessing meta-data''
      else Ret (metrics r))"

section \<open>Errors reported by the server\<close>

text \<open>Decimal rendering of an unsigned number, as \<^verbatim>\<open>%d\<close> prints it.\<close>

fun decimal :: "nat \<Rightarrow> string" where
  "decimal n =
     (if n < 10 then [''0123456789'' ! n]
      else decimal (n div 10) @ [''0123456789'' ! (n mod 10)])"

declare decimal.simps [simp del]

text \<open>\<^verbatim>\<open>n1qlError.Error\<close> is \<^verbatim>\<open>fmt.Sprintf("[%d] %s", e.Code, e.Message)\<close>.\<close>

definition n1qlError_Error :: "n1qlError \<Rightarrow> string" where
  "n1qlError_Error e = ''['' @ decimal (unat (Code e)) @ ''] '' @ Message e"

text \<open>
  The two methods of \<^verbatim>\<open>n1qlMultiError\<close> read element 0 of the slice, which panics
  on an empty slice.
\<close>

definition n1qlMultiError_Error :: "n1qlError list \<Rightarrow> string outcome" where
  "n1qlMultiError_Error es =
     (case es of [] \<Rightarrow> Panic ''index out of range'' | e # _ \<Rightarrow> Ret (n1qlError_Error e))"

definition n1qlMultiError_Code :: "n1qlError list \<Rightarrow> 32 word outcome" where
  "n1qlMultiError_Code es =
     (case es of [] \<Rightarrow> Panic ''index out of range'' | e # _ \<Rightarrow> Ret (Code e))"

section \<open>Contexts, the provider and the state of a client\<close>

text \<open>
  A \<^verbatim>\<open>context.Context\<close> is described by the instant at which it becomes done (if
  ever) and the error it reports from then on. Time is a count of nanoseconds.
\<close>

record goctx =
  doneAt :: "int option"
  cause :: error

definition Background :: goctx where
  "Background = \<lparr>doneAt = None, cause = Canceled\<rparr>"

definition Done :: "goctx \<Rightarrow> int \<Rightarrow> bool" where
  "Done ctx t = (case doneAt ctx of None \<Rightarrow> False | Some d \<Rightarrow> d \<le> t)"

definition Err :: "goctx \<Rightarrow> int \<Rightarrow> error option" where
  "Err ctx t = (if Done ctx t then Some (cause ctx) else None)"

text \<open>
  \<^verbatim>\<open>context.WithTimeout(parent, timeout)\<close> called at instant \<open>t\<close>: the child is done
  at \<open>t + timeout\<close> with \<^verbatim>\<open>DeadlineExceeded\<close>, unless the parent is done no later,
  in which case the child ends with the parent and reports the parent's error.
\<close>

definition WithTimeout :: "goctx \<Rightarrow> duration \<Rightarrow> int \<Rightarrow> goctx" where
  "WithTimeout parent timeout t =
     (let d = t + timeout
      in case doneAt parent of
           None \<Rightarrow> \<lparr>doneAt = Some d, cause = DeadlineExceeded\<rparr>
         | Some p \<Rightarrow> if p \<le> d then parent else \<lparr>doneAt = Some d, cause = DeadlineExceeded\<rparr>)"

text \<open>
  A \<^verbatim>\<open>gocbcore.HttpRequest\<close>. The body is the JSON object that
  \<^verbatim>\<open>json.Marshal\<close> makes of the options map, represented by that map.
\<close>

record HttpRequest =
  Service :: string
  Path :: string
  Method :: string
  Context :: goctx
  Body :: qmap

text \<open>
  A \<^verbatim>\<open>gocbcore.HttpResponse\<close>. The body is represented by what the JSON decoder
  makes of it: a decoding error or an \<^verbatim>\<open>n1qlResponse\<close>.
\<close>

record HttpResponse =
  StatusCode :: int
  Endpoint :: string
  RespBody :: "error + n1qlResponse"

text \<open>
  The mutable state a call works on: the plan cache of the cluster, the clock, and the
  requests handed to the provider so far, oldest first.
\<close>

record state =
  queryCache :: "string \<rightharpoonup> n1qlCache"
  now :: int
  sent :: "HttpRequest list"

text \<open>
  The provider is outside this code. It answers a request, knowing the earlier requests
  and the time, with an error or a response, and takes some time to do so.
\<close>

type_synonym queryProvider =
  "HttpRequest list \<Rightarrow> int \<Rightarrow> HttpRequest \<Rightarrow> (error + HttpResponse) \<times> nat"

definition DoHttpRequest ::
  "queryProvider \<Rightarrow> HttpRequest \<Rightarrow> state \<Rightarrow> (error + HttpResponse) \<times> state" where
  "DoHttpRequest provider req st =
     (let (r, latency) = provider (sent st) (now st) req
      in (r, st\<lparr>now := now st + int latency, sent := sent st @ [req]\<rparr>))"

record n1qlPrepData =
  EncodedPlan :: string
  Name :: string

text \<open>
  Functions of Go's libraries and of files of the package that are not part of query.go:
  \<^verbatim>\<open>time.ParseDuration\<close>, \<^verbatim>\<open>Duration.String\<close>, the host of
  \<^verbatim>\<open>url.Parse\<close> (\<open>None\<close> when parsing fails), \<^verbatim>\<open>isRetryableError\<close>, and
  \<^verbatim>\<open>json.Unmarshal\<close> into an \<^verbatim>\<open>n1qlPrepData\<close>.
\<close>

record deps =
  ParseDuration :: "string \<Rightarrow> error + duration"
  DurationString :: "duration \<Rightarrow> string"
  urlHost :: "string \<Rightarrow> string option"
  isRetryableError :: "error \<Rightarrow> bool"
  unmarshalPrepData :: "raw \<Rightarrow> n1qlPrepData \<Rightarrow> error option \<times> n1qlPrepData"

section \<open>The query dispatcher\<close>

text \<open>\<^verbatim>\<open>time.ParseDuration\<close> returns the zero duration together with an error.\<close>

definition durationOrZero :: "deps \<Rightarrow> string \<Rightarrow> duration" where
  "durationOrZero d s = (case ParseDuration d s of Inl _ \<Rightarrow> 0 | Inr t \<Rightarrow> t)"

definition newN1qlResults :: "deps \<Rightarrow> HttpResponse \<Rightarrow> n1qlResponse \<Rightarrow> n1qlResults" where
  "newN1qlResults d resp n1qlResp =
     \<lparr>closed = False,
      index = - 1,
      rows = Results n1qlResp,
      err = None,
      requestId = RequestId n1qlResp,
      clientContextId = ClientContextId n1qlResp,
      metrics =
        \<lparr>ElapsedTime = durationOrZero d (ElapsedTimeStr (Metrics n1qlResp)),
         ExecutionTime = durationOrZero d (ExecutionTimeStr (Metrics n1qlResp)),
         ResultCount = ResultCountW (Metrics n1qlResp),
         ResultSize = ResultSizeW (Metrics n1qlResp),
         MutationCount = MutationCountW (Metrics n1qlResp),
         SortCount = SortCountW (Metrics n1qlResp),
         ErrorCount = ErrorCountW (Metrics n1qlResp),
         WarningCount = WarningCountW (Metrics n1qlResp)\<rparr>,
      sourceAddr = (case urlHost d (Endpoint resp) of None \<Rightarrow> [] | Some h \<Rightarrow> h)\<rparr>"

text \<open>
  \<^verbatim>\<open>executeN1qlQuery\<close>: one round trip. A provider error and a decoding error are
  returned as they are; a non-empty error list is returned as an
  \<^verbatim>\<open>n1qlMultiError\<close>; the branch for a status other than 200 has an empty body in the
  source, so the status decides nothing.
\<close>

definition executeN1qlQuery ::
  "deps \<Rightarrow> queryProvider \<Rightarrow> goctx \<Rightarrow> qmap \<Rightarrow> state \<Rightarrow> (error + n1qlResults) \<times> state" where
  "executeN1qlQuery d provider ctx opts st =
     (let req = \<lparr>Service = ''n1ql'', Path = ''/query/service'', Method = ''POST'',
                 Context = ctx, Body = opts\<rparr>;
          (r, st') = DoHttpRequest provider req st
      in case r of
           Inl e \<Rightarrow> (Inl e, st')
         | Inr resp \<Rightarrow>
             (case RespBody resp of
                Inl e \<Rightarrow> (Inl e, st')
              | Inr n1qlResp \<Rightarrow>
                  if length (Errors n1qlResp) > 0
                  then (Inl (N1qlMultiError (Errors n1qlResp)), st')
                  else if StatusCode resp \<noteq> 200
                  then (Inr (newN1qlResults d resp n1qlResp), st')
                  else (Inr (newN1qlResults d resp n1qlResp), st')))"

section \<open>Building the options of a request\<close>

text \<open>
  The declarations of \<^verbatim>\<open>QueryParameters\<close> and \<^verbatim>\<open>QueryOptions\<close> are not in
  query.go; the fields below are the ones query.go reads. A nil slice or map is
  \<open>None\<close>. Both types have fields for positional and for named parameters; those of
  the options carry the suffix \<open>O\<close>. A Go map that is only iterated is given by its
  entries.
\<close>

record QueryParameters =
  positionalParams :: "gval list option"
  namedParams :: "(string \<times> gval) list option"

record QueryOptions =
  options :: "(string \<times> gval) list"
  positionalParamsO :: "gval list option"
  namedParamsO :: "(string \<times> gval) list option"
  adHoc :: bool
  ctx :: "goctx option"

definition sliceValue :: "gval list option \<Rightarrow> gval" where
  "sliceValue xs = (case xs of None \<Rightarrow> VNull | Some vs \<Rightarrow> VList vs)"

definition entries :: "(string \<times> gval) list option \<Rightarrow> (string \<times> gval) list" where
  "entries m = (case m of None \<Rightarrow> [] | Some kvs \<Rightarrow> kvs)"

text \<open>
  \<^verbatim>\<open>createQueryOpts\<close>. The two tests read the parameters \<^verbatim>\<open>params\<close>; the values
  stored are read from the options \<^verbatim>\<open>opts\<close>.
\<close>

definition createQueryOpts :: "string \<Rightarrow> QueryParameters \<Rightarrow> QueryOptions \<Rightarrow> error + qmap" where
  "createQueryOpts statement params opts =
     (let execOpts = [''statement'' \<mapsto> VStr statement];
          execOpts = fold (\<lambda>(k, v) m. m(k \<mapsto> v)) (options opts) execOpts
      in if positionalParams params \<noteq> None
         then Inr (execOpts(''args'' \<mapsto> sliceValue (positionalParamsO opts)))
         else if namedParams params \<noteq> None
         then Inr (fold (\<lambda>(key, value) m. m(CHR ''$'' # key \<mapsto> value))
                     (entries (namedParamsO opts)) execOpts)
         else Inr execOpts)"

section \<open>The timeout of a call\<close>

text \<open>
  The retry behaviour of a cluster; the attempt count is a Go \<^verbatim>\<open>uint\<close>, which the
  few attempts of a call never overflow.
\<close>

record retryBehavior =
  CanRetry :: "nat \<Rightarrow> bool"
  NextInterval :: "nat \<Rightarrow> duration"

record cluster =
  n1qlTimeout :: duration
  N1qlRetryBehavior :: "retryBehavior option"

text \<open>
  The start of \<^verbatim>\<open>Cluster.query\<close>: the timeout is the default of the cluster, unless
  the options hold a string under \<^verbatim>\<open>"timeout"\<close> that parses to a positive duration
  below the default. A string that does not parse ends the call with the parse error.
  The timeout chosen is stored under \<^verbatim>\<open>"timeout"\<close>.
\<close>

definition queryTimeout :: "deps \<Rightarrow> duration \<Rightarrow> qmap \<Rightarrow> error + duration \<times> qmap" where
  "queryTimeout d dflt queryOpts =
     (let timeout = dflt
      in case (case queryOpts ''timeout'' of
                 Some (VStr tmostr) \<Rightarrow> ParseDuration d tmostr
               | _ \<Rightarrow> Inr 0) of
           Inl e \<Rightarrow> Inl e
         | Inr optTimeout \<Rightarrow>
             (let timeout = (if optTimeout > 0 \<and> optTimeout < timeout then optTimeout
                             else timeout)
              in Inr (timeout, queryOpts(''timeout'' \<mapsto> VStr (DurationString d timeout)))))"

section \<open>Prepared statements\<close>

text \<open>
  \<^verbatim>\<open>prepareN1qlQuery\<close>: the type assertion on \<^verbatim>\<open>opts["statement"]\<close> panics
  unless a string is stored there. \<^verbatim>\<open>prepOpts\<close> is built; the request is made with
  \<^verbatim>\<open>opts\<close>.
\<close>

definition prepareN1qlQuery ::
  "deps \<Rightarrow> queryProvider \<Rightarrow> goctx \<Rightarrow> qmap \<Rightarrow> state \<Rightarrow> (error + n1qlCache) outcome \<times> state" where
  "prepareN1qlQuery d provider cx opts st =
     (case opts ''statement'' of
        Some (VStr s) \<Rightarrow>
          (let prepOpts = opts(''statement'' \<mapsto> VStr (''PREPARE '' @ s));
               (prepRes, st') = executeN1qlQuery d provider cx opts st
           in case prepRes of
                Inl e \<Rightarrow> (Ret (Inl e), st')
              | Inr res \<Rightarrow>
                  (case One (unmarshalPrepData d) res \<lparr>EncodedPlan = [], Name = []\<rparr> of
                     (Panic p, _, _) \<Rightarrow> (Panic p, st')
                   | (Ret (Some e), _, _) \<Rightarrow> (Ret (Inl e), st')
                   | (Ret None, _, preped) \<Rightarrow>
                       (Ret (Inr \<lparr>name = Name preped, encodedPlan = EncodedPlan preped\<rparr>), st')))
      | _ \<Rightarrow> (Panic ''interface conversion: interface {} is not string'', st))"

text \<open>Replacing the statement of the options by a cached plan.\<close>

definition usePlan :: "n1qlCache \<Rightarrow> qmap \<Rightarrow> qmap" where
  "usePlan cachedStmt queryOpts =
     (queryOpts(''statement'' := None))
       (''prepared'' \<mapsto> VStr (name cachedStmt),
        ''encoded_plan'' \<mapsto> VStr (encodedPlan cachedStmt))"

text \<open>
  The second half of \<^verbatim>\<open>doPreparedN1qlQuery\<close>: prepare, store the plan under
  \<^verbatim>\<open>stmtStr\<close>, execute with the plan. The options map is shared with the caller,
  so the changed map is returned with the result.
\<close>

definition prepareAndExecute ::
  "deps \<Rightarrow> queryProvider \<Rightarrow> goctx \<Rightarrow> string \<Rightarrow> qmap \<Rightarrow> state
     \<Rightarrow> (error + n1qlResults) outcome \<times> qmap \<times> state" where
  "prepareAndExecute d provider cx stmtStr queryOpts st =
     (case prepareN1qlQuery d provider cx queryOpts st of
        (Panic p, st1) \<Rightarrow> (Panic p, queryOpts, st1)
      | (Ret (Inl e), st1) \<Rightarrow> (Ret (Inl e), queryOpts, st1)
      | (Ret (Inr cachedStmt), st1) \<Rightarrow>
          (let st2 = st1\<lparr>queryCache := (queryCache st1)(stmtStr \<mapsto> cachedStmt)\<rparr>;
               queryOpts' = usePlan cachedStmt queryOpts;
               (r, st3) = executeN1qlQuery d provider cx queryOpts' st2
           in (Ret r, queryOpts', st3)))"

text \<open>
  \<^verbatim>\<open>doPreparedN1qlQuery\<close>: a failed type assertion with the comma-ok form leaves
  the empty string in \<^verbatim>\<open>stmtStr\<close>. With a cached plan the statement is deleted from
  the options and the plan is executed; an error that is retryable leads on to the
  second half, with the options as they are then.
\<close>

definition doPreparedN1qlQuery ::
  "deps \<Rightarrow> queryProvider \<Rightarrow> goctx \<Rightarrow> qmap \<Rightarrow> state
     \<Rightarrow> (error + n1qlResults) outcome \<times> qmap \<times> state" where
  "doPreparedN1qlQuery d provider cx queryOpts st =
     (let stmtStr = (case queryOpts ''statement'' of Some (VStr s) \<Rightarrow> s | _ \<Rightarrow> [])
      in case queryCache st stmtStr of
           Some cachedStmt \<Rightarrow>
             (let queryOpts1 = usePlan cachedStmt queryOpts;
                  (r, st1) = executeN1qlQuery d provider cx queryOpts1 st
              in case r of
                   Inr results \<Rightarrow> (Ret (Inr results), queryOpts1, st1)
                 | Inl e \<Rightarrow>
                     if \<not> isRetryableError d e then (Ret (Inl e), queryOpts1, st1)
                     else prepareAndExecute d provider cx stmtStr queryOpts1 st1)
         | None \<Rightarrow> prepareAndExecute d provider cx stmtStr queryOpts st)"

section \<open>The retry loop\<close>

text \<open>\<^verbatim>\<open>time.Sleep\<close> returns at once for a duration that is not positive.\<close>

definition Sleep :: "duration \<Rightarrow> state \<Rightarrow> state" where
  "Sleep t st = st\<lparr>now := now st + max 0 t\<rparr>"

text \<open>
  What is known when the loop of \<^verbatim>\<open>Cluster.query\<close> is left or abandoned:
  \<open>returned\<close> is what the call returned, \<open>None\<close> while it has not returned;
  then the variables \<^verbatim>\<open>retries\<close> and \<^verbatim>\<open>err\<close>, the options map and the state.
\<close>

record run =
  returned :: "(error + n1qlResults) outcome option"
  retries :: nat
  errVar :: "error option"
  queryOpts :: qmap
  final :: state

text \<open>One unit of work of the loop: the ad-hoc execution or the prepared one.\<close>

definition unitOfWork ::
  "deps \<Rightarrow> queryProvider \<Rightarrow> bool \<Rightarrow> goctx \<Rightarrow> qmap \<Rightarrow> state
     \<Rightarrow> (error + n1qlResults) outcome \<times> qmap \<times> state" where
  "unitOfWork d provider adhoc cx qo st =
     (if adhoc then (let (r, st') = executeN1qlQuery d provider cx qo st in (Ret r, qo, st'))
      else doPreparedN1qlQuery d provider cx qo st)"

text \<open>
  The loop of \<^verbatim>\<open>Cluster.query\<close>. The first argument bounds the number of
  iterations looked at; when it is used up the call has not returned. In the branch for
  a context that is done the source assigns \<^verbatim>\<open>err\<close> and goes round again.
\<close>

fun queryLoop ::
  "nat \<Rightarrow> deps \<Rightarrow> cluster \<Rightarrow> queryProvider \<Rightarrow> bool \<Rightarrow> goctx
     \<Rightarrow> nat \<Rightarrow> error option \<Rightarrow> qmap \<Rightarrow> state \<Rightarrow> run" where
  "queryLoop 0 d c provider adhoc cx n e qo st =
     \<lparr>returned = None, retries = n, errVar = e, queryOpts = qo, final = st\<rparr>"
| "queryLoop (Suc fuel) d c provider adhoc cx n e qo st =
     (if Done cx (now st)
      then queryLoop fuel d c provider adhoc cx n (Err cx (now st)) qo st
      else
        (let n' = n + 1
         in case unitOfWork d provider adhoc cx qo st of
              (Panic p, qo', st') \<Rightarrow>
                \<lparr>returned = Some (Panic p), retries = n', errVar = e, queryOpts = qo', final = st'\<rparr>
            | (Ret (Inr res), qo', st') \<Rightarrow>
                \<lparr>returned = Some (Ret (Inr res)), retries = n', errVar = None,
                 queryOpts = qo', final = st'\<rparr>
            | (Ret (Inl e'), qo', st') \<Rightarrow>
                (case N1qlRetryBehavior c of
                   None \<Rightarrow>
                     \<lparr>returned = Some (Ret (Inl e')), retries = n', errVar = Some e',
                      queryOpts = qo', final = st'\<rparr>
                 | Some rb \<Rightarrow>
                     if \<not> isRetryableError d e' \<or> \<not> CanRetry rb n'
                     then \<lparr>returned = Some (Ret (Inl e')), retries = n', errVar = Some e',
                           queryOpts = qo', final = st'\<rparr>
                     else queryLoop fuel d c provider adhoc cx n' (Some e') qo'
                            (Sleep (NextInterval rb n') st'))))"

definition query ::
  "nat \<Rightarrow> deps \<Rightarrow> cluster \<Rightarrow> goctx \<Rightarrow> string \<Rightarrow> QueryParameters \<Rightarrow> QueryOptions
     \<Rightarrow> queryProvider \<Rightarrow> state \<Rightarrow> run" where
  "query fuel d c cx statement params opts provider st =
     (case createQueryOpts statement params opts of
        Inl e \<Rightarrow>
          \<lparr>returned = Some (Ret (Inl e)), retries = 0, errVar = Some e,
           queryOpts = Map.empty, final = st\<rparr>
      | Inr qo \<Rightarrow>
          (case queryTimeout d (n1qlTimeout c) qo of
             Inl e \<Rightarrow>
               \<lparr>returned = Some (Ret (Inl e)), retries = 0, errVar = Some e,
                queryOpts = qo, final = st\<rparr>
           | Inr (timeout, qo') \<Rightarrow>
               queryLoop fuel d c provider (adHoc opts) (WithTimeout cx timeout (now st))
                 0 None qo' st))"

text \<open>
  \<^verbatim>\<open>Cluster.Query\<close>: absent options and parameters are replaced by empty ones, an
  absent context by the background context. The provider, or the error of getting it,
  is an argument.
\<close>

definition Query ::
  "nat \<Rightarrow> deps \<Rightarrow> cluster \<Rightarrow> string \<Rightarrow> QueryParameters option \<Rightarrow> QueryOptions option
     \<Rightarrow> error + queryProvider \<Rightarrow> state \<Rightarrow> run" where
  "Query fuel d c statement params opts getQueryProvider st =
     (let opts = (case opts of
                    None \<Rightarrow> \<lparr>options = [], positionalParamsO = None, namedParamsO = None,
                             adHoc = False, ctx = None\<rparr>
                  | Some p \<Rightarrow> p);
          params = (case params of
                      None \<Rightarrow> \<lparr>positionalParams = None, namedParams = None\<rparr>
                    | Some p \<Rightarrow> p);
          cx = (case ctx opts of None \<Rightarrow> Background | Some c' \<Rightarrow> c')
      in case getQueryProvider of
           Inl e \<Rightarrow>
             \<lparr>returned = Some (Ret (Inl e)), retries = 0, errVar = Some e,
              queryOpts = Map.empty, final = st\<rparr>
         | Inr provider \<Rightarrow> query fuel d c cx statement params opts provider st)"

section \<open>Callers, reference definitions and example inputs\<close>

text \<open>The request that \<^verbatim>\<open>executeN1qlQuery\<close> builds from a context and an options map.\<close>

definition n1qlRequest :: "goctx \<Rightarrow> qmap \<Rightarrow> HttpRequest" where
  "n1qlRequest cx opts =
     \<lparr>Service = ''n1ql'', Path = ''/query/service'', Method = ''POST'', Context = cx, Body = opts\<rparr>"

text \<open>
  A caller that reads the rows with \<^verbatim>\<open>NextBytes\<close> until it returns nil, and
  collects them.
\<close>

function drainBytes :: "n1qlResults \<Rightarrow> raw list outcome \<times> n1qlResults" where
  "drainBytes r =
     (case NextBytes r of
        (Panic p, r') \<Rightarrow> (Panic p, r')
      | (Ret None, r') \<Rightarrow> (Ret [], r')
      | (Ret (Some row), r') \<Rightarrow>
          (case drainBytes r' of
             (Ret rs, r'') \<Rightarrow> (Ret (row # rs), r'')
           | (Panic p, r'') \<Rightarrow> (Panic p, r'')))"
  by pat_completeness auto
termination
  by (relation "measure (\<lambda>r. nat (int (length (rows r)) - index r))")
     (simp_all add: NextBytes_def Let_def split: if_splits)

declare drainBytes.simps [simp del]

text \<open>
  The timeout rule in the words of the specification. The override of a call is the
  duration that the string under \<^verbatim>\<open>"timeout"\<close> denotes. Anything else under
  \<^verbatim>\<open>"timeout"\<close> is no override: the specification knows no failure here, and uses
  the default of the client whenever there is no valid override.
\<close>

definition specOverride :: "deps \<Rightarrow> qmap \<Rightarrow> duration option" where
  "specOverride d qo =
     (case qo ''timeout'' of
        Some (VStr s) \<Rightarrow> (case ParseDuration d s of Inl e \<Rightarrow> None | Inr t \<Rightarrow> Some t)
      | _ \<Rightarrow> None)"

definition specEffectiveTimeout :: "duration \<Rightarrow> duration option \<Rightarrow> duration" where
  "specEffectiveTimeout dflt override =
     (case override of
        None \<Rightarrow> dflt
      | Some t \<Rightarrow> if 0 < t \<and> t \<le> dflt then t else dflt)"

text \<open>The requests that were handed to the provider between two states.\<close>

definition sentBetween :: "state \<Rightarrow> state \<Rightarrow> HttpRequest list" where
  "sentBetween st st' = drop (length (sent st)) (sent st')"

text \<open>Example inputs.\<close>

definition exampleResponse :: "raw list \<Rightarrow> n1qlError list \<Rightarrow> n1qlResponse" where
  "exampleResponse rs es =
     \<lparr>RequestId = ''req-1'', ClientContextId = ''cc-1'', Results = rs, Errors = es,
      Status = (if es = [] then ''success'' else ''errors''),
      Metrics = \<lparr>ElapsedTimeStr = ''5ms'', ExecutionTimeStr = ''bogus'', ResultCountW = length rs,
                 ResultSizeW = 0, MutationCountW = 0, SortCountW = 0, ErrorCountW = length es,
                 WarningCountW = 0\<rparr>\<rparr>"

definition exampleErrors :: "n1qlError list" where
  "exampleErrors =
     [\<lparr>Code = 4050, Message = ''no such plan''\<rparr>, \<lparr>Code = 5000, Message = ''busy''\<rparr>]"

definition exampleDeps :: deps where
  "exampleDeps =
     \<lparr>ParseDuration = (\<lambda>s. if s = ''5ms'' then Inr 5000000 else Inl (DurationError s)),
      DurationString =
        (\<lambda>t. if t = 5000000 then ''5ms'' else if t = 75000000000 then ''1m15s''
             else decimal (nat t) @ ''ns''),
      urlHost = (\<lambda>s. Some s),
      isRetryableError =
        (\<lambda>e. case e of
                N1qlMultiError (x # _) \<Rightarrow> Code x = 4050 \<or> Code x = 4070 \<or> Code x = 5000
              | _ \<Rightarrow> False),
      unmarshalPrepData = (\<lambda>row v. (None, \<lparr>EncodedPlan = row, Name = ''plan''\<rparr>))\<rparr>"

definition answering :: "int \<Rightarrow> n1qlResponse \<Rightarrow> nat \<Rightarrow> queryProvider" where
  "answering status body latency =
     (\<lambda>history t req.
        (Inr \<lparr>StatusCode = status, Endpoint = ''host:8093'', RespBody = Inr body\<rparr>, latency))"

definition emptyState :: state where
  "emptyState = \<lparr>queryCache = Map.empty, now = 0, sent = []\<rparr>"

definition cachedState :: state where
  "cachedState =
     \<lparr>queryCache = [''SELECT 1'' \<mapsto> \<lparr>name = ''p1'', encodedPlan = ''e1''\<rparr>], now = 0, sent = []\<rparr>"

definition twoRetries :: retryBehavior where
  "twoRetries = \<lparr>CanRetry = (\<lambda>n. n \<le> 2), NextInterval = (\<lambda>n. 1)\<rparr>"

definition adHocOptions :: QueryOptions where
  "adHocOptions =
     \<lparr>options = [], positionalParamsO = None, namedParamsO = None, adHoc = True, ctx = None\<rparr>"

definition exampleCluster :: cluster where
  "exampleCluster = \<lparr>n1qlTimeout = 75000000000, N1qlRetryBehavior = Some twoRetries\<rparr>"

definition hastyCluster :: cluster where
  "hastyCluster = \<lparr>n1qlTimeout = 5, N1qlRetryBehavior = Some twoRetries\<rparr>"

definition plainCluster :: cluster where
  "plainCluster = \<lparr>n1qlTimeout = 75000000000, N1qlRetryBehavior = None\<rparr>"

definition expiredContext :: goctx where
  "expiredContext = \<lparr>doneAt = Some 0, cause = Canceled\<rparr>"

definition noParameters :: QueryParameters where
  "noParameters = \<lparr>positionalParams = None, namedParams = None\<rparr>"

text \<open>
  A decoder that rejects every row, as \<^verbatim>\<open>json.Unmarshal\<close> rejects a row that
  does not fit the target, and the cursor of a response with one row.
\<close>

definition failingDecoder :: "raw \<Rightarrow> n1qlPrepData \<Rightarrow> error option \<times> n1qlPrepData" where
  "failingDecoder row v = (Some (JsonError row), v)"

definition oneRowCursor :: n1qlResults where
  "oneRowCursor =
     newN1qlResults exampleDeps
       \<lparr>StatusCode = 200, Endpoint = ''host:8093'', RespBody = Inr (exampleResponse [''x''] [])\<rparr>
       (exampleResponse [''x''] [])"

section \<open>Properties of the result cursor\<close>

lemma NextBytes_end:
  "err r = None \<Longrightarrow> int (length (rows r)) \<le> index r + 1 \<Longrightarrow>
     NextBytes r = (Ret None, r\<lparr>closed := True\<rparr>)"
  by (simp add: NextBytes_def)

lemma NextBytes_row:
  "err r = None \<Longrightarrow> - 1 \<le> index r \<Longrightarrow> index r + 1 < int (length (rows r)) \<Longrightarrow>
     NextBytes r = (Ret (Some (rows r ! nat (index r + 1))), r\<lparr>index := index r + 1\<rparr>)"
  by (simp add: NextBytes_def Let_def)

lemma NextBytes_index: "- 1 \<le> index r \<Longrightarrow> - 1 \<le> index (snd (NextBytes r))"
  by (simp add: NextBytes_def Let_def)

text \<open>
  The index of a cursor is -1 when \<^verbatim>\<open>executeN1qlQuery\<close> builds it and never
  gets smaller, so the panic of \<^verbatim>\<open>NextBytes\<close> is out of reach.
\<close>

lemma index_from_construction: "- 1 \<le> index (newN1qlResults d resp n1qlResp)"
  by (simp add: newN1qlResults_def)

lemma index_kept:
  assumes "- 1 \<le> index r"
  shows "- 1 \<le> index (fst (snd (Next um r v)))"
    and "- 1 \<le> index (snd (Close r))"
    and "- 1 \<le> index (fst (snd (One um r v)))"
  using assms
  by (auto simp: One_def Next_def NextBytes_def Close_def Let_def
      split: if_splits prod.splits option.splits outcome.splits)

lemma drop_next_row:
  assumes "- 1 \<le> (i::int)" and "i + 1 < int (length xs)"
  shows "drop (nat (i + 1)) xs = xs ! nat (i + 1) # drop (nat (i + 1 + 1)) xs"
proof -
  have lt: "nat (i + 1) < length xs" using assms by linarith
  have suc: "nat (i + 1 + 1) = Suc (nat (i + 1))" using assms by linarith
  show ?thesis unfolding suc using Cons_nth_drop_Suc [OF lt] by simp
qed

lemma drainBytes_rest:
  "err r = None \<Longrightarrow> - 1 \<le> index r \<Longrightarrow>
     drainBytes r =
       (Ret (drop (nat (index r + 1)) (rows r)),
        r\<lparr>index := max (index r) (int (length (rows r)) - 1), closed := True\<rparr>)"
proof (induction r rule: drainBytes.induct)
  case (1 r)
  show ?case
  proof (cases "index r + 1 < int (length (rows r))")
    case False
    then have nb: "NextBytes r = (Ret None, r\<lparr>closed := True\<rparr>)"
      using "1.prems" by (simp add: NextBytes_end)
    from False have "drop (nat (index r + 1)) (rows r) = []" by simp
    moreover from False have "max (index r) (int (length (rows r)) - 1) = index r" by simp
    ultimately show ?thesis
      by (subst drainBytes.simps) (simp add: nb)
  next
    case True
    let ?r' = "r\<lparr>index := index r + 1\<rparr>"
    have nb: "NextBytes r = (Ret (Some (rows r ! nat (index r + 1))), ?r')"
      using "1.prems" True by (simp add: NextBytes_row)
    have ih: "drainBytes ?r' =
       (Ret (drop (nat (index ?r' + 1)) (rows ?r')),
        ?r'\<lparr>index := max (index ?r') (int (length (rows ?r')) - 1), closed := True\<rparr>)"
      using "1.IH" [OF nb [symmetric] refl refl] "1.prems" by simp
    have d: "drop (nat (index r + 1)) (rows r) =
        rows r ! nat (index r + 1) # drop (nat (index r + 1 + 1)) (rows r)"
      using True "1.prems" by (intro drop_next_row) simp_all
    have m: "max (index r + 1) (int (length (rows r)) - 1) = int (length (rows r)) - 1"
      "max (index r) (int (length (rows r)) - 1) = int (length (rows r)) - 1"
      using True by simp_all
    show ?thesis
      by (subst drainBytes.simps) (simp add: nb ih d m)
  qed
qed

lemma Next_false_closed:
  "Next um r v = (Ret False, r', v') \<Longrightarrow> err r' = None \<Longrightarrow> closed r'"
  by (auto simp: Next_def NextBytes_def Let_def
      split: if_splits prod.splits option.splits outcome.splits)

text \<open>
  C7, as amended: while a cursor is not closed, \<^verbatim>\<open>RequestId\<close>,
  \<^verbatim>\<open>ClientContextId\<close> and \<^verbatim>\<open>Metrics\<close> panic. On a cursor that retains no
  decode error, reading with \<^verbatim>\<open>NextBytes\<close> to the end yields the rows that are
  left, in order, and leaves the cursor closed, and so does a \<^verbatim>\<open>Next\<close> that
  reports the end of the rows; the three accessors then return the request id, the
  client context id and the metrics of the cursor, which for the cursor of a response
  are those of the decoded response. On a cursor that retains a decode error,
  \<^verbatim>\<open>NextBytes\<close> and \<^verbatim>\<open>Next\<close> return at once and change nothing, so reading
  does not close it.
\<close>

theorem metadata_only_after_close:
  "(\<not> closed r \<longrightarrow>
      n1qlResults_RequestId r = Panic ''Result must be closed before accessing meta-data'' \<and>
      n1qlResults_ClientContextId r = Panic ''Result must be closed before accessing meta-data'' \<and>
      n1qlResults_Metrics r = Panic ''Result must be closed before accessing meta-data'') \<and>
   (err ra = None \<and> - 1 \<le> index ra \<longrightarrow>
      fst (drainBytes ra) = Ret (drop (nat (index ra + 1)) (rows ra)) \<and>
      closed (snd (drainBytes ra)) \<and>
      n1qlResults_RequestId (snd (drainBytes ra)) = Ret (requestId ra) \<and>
      n1qlResults_ClientContextId (snd (drainBytes ra)) = Ret (clientContextId ra) \<and>
      n1qlResults_Metrics (snd (drainBytes ra)) = Ret (metrics ra)) \<and>
   (let r0 = newN1qlResults d resp n1qlResp; r1 = snd (drainBytes r0)
    in \<not> closed r0 \<and>
       fst (drainBytes r0) = Ret (Results n1qlResp) \<and>
       closed r1 \<and>
       n1qlResults_RequestId r1 = Ret (RequestId n1qlResp) \<and>
       n1qlResults_ClientContextId r1 = Ret (ClientContextId n1qlResp) \<and>
       n1qlResults_Metrics r1 =
         Ret \<lparr>ElapsedTime = durationOrZero d (ElapsedTimeStr (Metrics n1qlResp)),
              ExecutionTime = durationOrZero d (ExecutionTimeStr (Metrics n1qlResp)),
              ResultCount = ResultCountW (Metrics n1qlResp),
              ResultSize = ResultSizeW (Metrics n1qlResp),
              MutationCount = MutationCountW (Metrics n1qlResp),
              SortCount = SortCountW (Metrics n1qlResp),
              ErrorCount = ErrorCountW (Metrics n1qlResp),
              WarningCount = WarningCountW (Metrics n1qlResp)\<rparr>) \<and>
   (Next um rn v = (Ret False, rn', v') \<and> err rn' = None \<longrightarrow>
      closed rn' \<and>
      n1qlResults_RequestId rn' = Ret (requestId rn) \<and>
      n1qlResults_ClientContextId rn' = Ret (clientContextId rn) \<and>
      n1qlResults_Metrics rn' = Ret (metrics rn)) \<and>
   (err re \<noteq> None \<longrightarrow>
      NextBytes re = (Ret None, re) \<and> Next um re v = (Ret False, re, v))"
proof (intro conjI impI)
  assume "\<not> closed r"
  then show "n1qlResults_RequestId r = Panic ''Result must be closed before accessing meta-data''"
    "n1qlResults_ClientContextId r = Panic ''Result must be closed before accessing meta-data''"
    "n1qlResults_Metrics r = Panic ''Result must be closed before accessing meta-data''"
    by (simp_all add: n1qlResults_RequestId_def n1qlResults_ClientContextId_def
        n1qlResults_Metrics_def)
next
  assume a: "err ra = None \<and> - 1 \<le> index ra"
  then have dr: "drainBytes ra =
       (Ret (drop (nat (index ra + 1)) (rows ra)),
        ra\<lparr>index := max (index ra) (int (length (rows ra)) - 1), closed := True\<rparr>)"
    by (simp add: drainBytes_rest)
  show "fst (drainBytes ra) = Ret (drop (nat (index ra + 1)) (rows ra))"
    "closed (snd (drainBytes ra))"
    "n1qlResults_RequestId (snd (drainBytes ra)) = Ret (requestId ra)"
    "n1qlResults_ClientContextId (snd (drainBytes ra)) = Ret (clientContextId ra)"
    "n1qlResults_Metrics (snd (drainBytes ra)) = Ret (metrics ra)"
    by (simp_all add: dr n1qlResults_RequestId_def n1qlResults_ClientContextId_def
        n1qlResults_Metrics_def)
next
  have "err (newN1qlResults d resp n1qlResp) = None"
    "- 1 \<le> index (newN1qlResults d resp n1qlResp)"
    by (simp_all add: newN1qlResults_def)
  from drainBytes_rest [OF this]
  show "let r0 = newN1qlResults d resp n1qlResp; r1 = snd (drainBytes r0)
    in \<not> closed r0 \<and>
       fst (drainBytes r0) = Ret (Results n1qlResp) \<and>
       closed r1 \<and>
       n1qlResults_RequestId r1 = Ret (RequestId n1qlResp) \<and>
       n1qlResults_ClientContextId r1 = Ret (ClientContextId n1qlResp) \<and>
       n1qlResults_Metrics r1 =
         Ret \<lparr>ElapsedTime = durationOrZero d (ElapsedTimeStr (Metrics n1qlResp)),
              ExecutionTime = durationOrZero d (ExecutionTimeStr (Metrics n1qlResp)),
              ResultCount = ResultCountW (Metrics n1qlResp),
              ResultSize = ResultSizeW (Metrics n1qlResp),
              MutationCount = MutationCountW (Metrics n1qlResp),
              SortCount = SortCountW (Metrics n1qlResp),
              ErrorCount = ErrorCountW (Metrics n1qlResp),
              WarningCount = WarningCountW (Metrics n1qlResp)\<rparr>"
    by (simp add: Let_def newN1qlResults_def n1qlResults_RequestId_def
        n1qlResults_ClientContextId_def n1qlResults_Metrics_def)
next
  assume a: "Next um rn v = (Ret False, rn', v') \<and> err rn' = None"
  then have "rn' = rn\<lparr>closed := True\<rparr>"
    by (auto simp: Next_def NextBytes_def Let_def
        split: if_splits prod.splits option.splits outcome.splits)
  then show "closed rn'"
    "n1qlResults_RequestId rn' = Ret (requestId rn)"
    "n1qlResults_ClientContextId rn' = Ret (clientContextId rn)"
    "n1qlResults_Metrics rn' = Ret (metrics rn)"
    by (simp_all add: n1qlResults_RequestId_def n1qlResults_ClientContextId_def
        n1qlResults_Metrics_def)
next
  assume "err re \<noteq> None"
  then show "NextBytes re = (Ret None, re)" "Next um re v = (Ret False, re, v)"
    by (simp_all add: NextBytes_def Next_def)
qed

theorem metadata_only_after_close_witness:
  "\<not> closed (newN1qlResults exampleDeps
       \<lparr>StatusCode = 200, Endpoint = ''host:8093'', RespBody = Inr (exampleResponse [''1'', ''2'', ''3''] [])\<rparr>
       (exampleResponse [''1'', ''2'', ''3''] [])) \<and>
   n1qlResults_RequestId (newN1qlResults exampleDeps
       \<lparr>StatusCode = 200, Endpoint = ''host:8093'', RespBody = Inr (exampleResponse [''1'', ''2'', ''3''] [])\<rparr>
       (exampleResponse [''1'', ''2'', ''3''] []))
     = Panic ''Result must be closed before accessing meta-data'' \<and>
   fst (drainBytes (newN1qlResults exampleDeps
       \<lparr>StatusCode = 200, Endpoint = ''host:8093'', RespBody = Inr (exampleResponse [''1'', ''2'', ''3''] [])\<rparr>
       (exampleResponse [''1'', ''2'', ''3''] []))) = Ret [''1'', ''2'', ''3''] \<and>
   n1qlResults_RequestId (snd (drainBytes (newN1qlResults exampleDeps
       \<lparr>StatusCode = 200, Endpoint = ''host:8093'', RespBody = Inr (exampleResponse [''1'', ''2'', ''3''] [])\<rparr>
       (exampleResponse [''1'', ''2'', ''3''] [])))) = Ret ''req-1'' \<and>
   fst (drainBytes (oneRowCursor\<lparr>index := 0\<rparr>)) = Ret [] \<and>
   n1qlResults_ClientContextId (snd (drainBytes (oneRowCursor\<lparr>index := 0\<rparr>))) = Ret ''cc-1'' \<and>
   Next failingDecoder (oneRowCursor\<lparr>index := 0\<rparr>) \<lparr>EncodedPlan = [], Name = []\<rparr>
     = (Ret False, oneRowCursor\<lparr>index := 0, closed := True\<rparr>, \<lparr>EncodedPlan = [], Name = []\<rparr>) \<and>
   n1qlResults_RequestId (oneRowCursor\<lparr>index := 0, closed := True\<rparr>) = Ret ''req-1'' \<and>
   NextBytes (oneRowCursor\<lparr>index := 0, err := Some (JsonError ''x'')\<rparr>)
     = (Ret None, oneRowCursor\<lparr>index := 0, err := Some (JsonError ''x'')\<rparr>)"
  using metadata_only_after_close [where
      r = "newN1qlResults exampleDeps
       \<lparr>StatusCode = 200, Endpoint = ''host:8093'', RespBody = Inr (exampleResponse [''1'', ''2'', ''3''] [])\<rparr>
       (exampleResponse [''1'', ''2'', ''3''] [])"
      and d = exampleDeps
      and resp = "\<lparr>StatusCode = 200, Endpoint = ''host:8093'', RespBody = Inr (exampleResponse [''1'', ''2'', ''3''] [])\<rparr>"
      and ?n1qlResp.0 = "exampleResponse [''1'', ''2'', ''3''] []"
      and ra = "oneRowCursor\<lparr>index := 0\<rparr>"
      and um = failingDecoder
      and rn = "oneRowCursor\<lparr>index := 0\<rparr>"
      and v = "\<lparr>EncodedPlan = [], Name = []\<rparr>"
      and rn' = "oneRowCursor\<lparr>index := 0, closed := True\<rparr>"
      and v' = "\<lparr>EncodedPlan = [], Name = []\<rparr>"
      and re = "oneRowCursor\<lparr>index := 0, err := Some (JsonError ''x'')\<rparr>"]
  by (simp add: Let_def exampleResponse_def oneRowCursor_def newN1qlResults_def Next_def
      NextBytes_def)

text \<open>
  Without the condition on the retained error the cursor is not closed at the end of
  the rows: on the cursor of a response with one row, a \<^verbatim>\<open>Next\<close> whose decoder
  rejects the row has consumed the last row; the next read returns nil, the cursor is
  still open, and \<^verbatim>\<open>RequestId\<close> panics.
\<close>

theorem metadata_only_after_close_counterexample:
  "fst (Next failingDecoder oneRowCursor \<lparr>EncodedPlan = [], Name = []\<rparr>) = Ret False \<and>
   index (fst (snd (Next failingDecoder oneRowCursor \<lparr>EncodedPlan = [], Name = []\<rparr>)))
     = int (length (rows oneRowCursor)) - 1 \<and>
   fst (NextBytes (fst (snd (Next failingDecoder oneRowCursor \<lparr>EncodedPlan = [], Name = []\<rparr>))))
     = Ret None \<and>
   \<not> closed (snd (NextBytes
       (fst (snd (Next failingDecoder oneRowCursor \<lparr>EncodedPlan = [], Name = []\<rparr>))))) \<and>
   n1qlResults_RequestId (snd (NextBytes
       (fst (snd (Next failingDecoder oneRowCursor \<lparr>EncodedPlan = [], Name = []\<rparr>)))))
     = Panic ''Result must be closed before accessing meta-data''"
  by (simp add: Next_def NextBytes_def failingDecoder_def oneRowCursor_def newN1qlResults_def
      exampleResponse_def n1qlResults_RequestId_def Let_def)

text \<open>
  C10: on a cursor without rows (and so without a retained error) \<^verbatim>\<open>One\<close>
  returns nil and leaves the target as it was; on a cursor with one row that decodes
  it returns nil as well, so the returned error does not tell the two apart. On every
  cursor whose index is at least -1, as it is from the construction of the cursor on,
  \<^verbatim>\<open>One\<close> returns and leaves the cursor closed.
\<close>

theorem One_on_empty_result:
  "(rows r = [] \<and> err r = None \<and> - 1 \<le> index r \<longrightarrow>
      One um r v = (Ret None, r\<lparr>closed := True\<rparr>, v)) \<and>
   (rows rone = [x] \<and> err rone = None \<and> index rone = - 1 \<and> um x v = (None, v') \<longrightarrow>
      One um rone v = (Ret None, rone\<lparr>index := 0, err := None, closed := True\<rparr>, v')) \<and>
   (- 1 \<le> index rany \<longrightarrow>
      (\<exists>e. fst (One um rany v) = Ret e) \<and> closed (fst (snd (One um rany v))))"
proof (intro conjI impI)
  assume "rows r = [] \<and> err r = None \<and> - 1 \<le> index r"
  then show "One um r v = (Ret None, r\<lparr>closed := True\<rparr>, v)"
    by (simp add: One_def Next_def NextBytes_def Close_def Let_def)
next
  assume "rows rone = [x] \<and> err rone = None \<and> index rone = - 1 \<and> um x v = (None, v')"
  then show "One um rone v = (Ret None, rone\<lparr>index := 0, err := None, closed := True\<rparr>, v')"
    by (simp add: One_def Next_def NextBytes_def Close_def Let_def)
next
  assume "- 1 \<le> index rany"
  then show "\<exists>e. fst (One um rany v) = Ret e"
    by (auto simp: One_def Next_def NextBytes_def Close_def Let_def
        split: if_splits prod.splits option.splits outcome.splits)
next
  assume "- 1 \<le> index rany"
  then show "closed (fst (snd (One um rany v)))"
    by (auto simp: One_def Next_def NextBytes_def Close_def Let_def
        split: if_splits prod.splits option.splits outcome.splits)
qed

theorem One_on_empty_result_witness:
  "One (unmarshalPrepData exampleDeps)
       (newN1qlResults exampleDeps
          \<lparr>StatusCode = 200, Endpoint = ''host:8093'', RespBody = Inr (exampleResponse [] [])\<rparr>
          (exampleResponse [] []))
       \<lparr>EncodedPlan = ''old'', Name = ''old''\<rparr>
     = (Ret None,
        (newN1qlResults exampleDeps
          \<lparr>StatusCode = 200, Endpoint = ''host:8093'', RespBody = Inr (exampleResponse [] [])\<rparr>
          (exampleResponse [] []))\<lparr>closed := True\<rparr>,
        \<lparr>EncodedPlan = ''old'', Name = ''old''\<rparr>) \<and>
   fst (One (unmarshalPrepData exampleDeps)
       (newN1qlResults exampleDeps
          \<lparr>StatusCode = 200, Endpoint = ''host:8093'', RespBody = Inr (exampleResponse [''7''] [])\<rparr>
          (exampleResponse [''7''] []))
       \<lparr>EncodedPlan = ''old'', Name = ''old''\<rparr>) = Ret None \<and>
   closed (fst (snd (One (unmarshalPrepData exampleDeps)
       (newN1qlResults exampleDeps
          \<lparr>StatusCode = 200, Endpoint = ''host:8093'', RespBody = Inr (exampleResponse [''7''] [])\<rparr>
          (exampleResponse [''7''] []))
       \<lparr>EncodedPlan = ''old'', Name = ''old''\<rparr>)))"
  using One_on_empty_result [where
      r = "newN1qlResults exampleDeps
          \<lparr>StatusCode = 200, Endpoint = ''host:8093'', RespBody = Inr (exampleResponse [] [])\<rparr>
          (exampleResponse [] [])"
      and um = "unmarshalPrepData exampleDeps"
      and v = "\<lparr>EncodedPlan = ''old'', Name = ''old''\<rparr>"
      and rone = "newN1qlResults exampleDeps
          \<lparr>StatusCode = 200, Endpoint = ''host:8093'', RespBody = Inr (exampleResponse [''7''] [])\<rparr>
          (exampleResponse [''7''] [])"
      and x = "''7''"
      and v' = "\<lparr>EncodedPlan = ''7'', Name = ''plan''\<rparr>"
      and rany = "newN1qlResults exampleDeps
          \<lparr>StatusCode = 200, Endpoint = ''host:8093'', RespBody = Inr (exampleResponse [''7''] [])\<rparr>
          (exampleResponse [''7''] [])"]
  by (simp add: newN1qlResults_def exampleResponse_def exampleDeps_def)

section \<open>What the dispatcher sends and returns\<close>

lemma executeN1qlQuery_state:
  "snd (executeN1qlQuery d provider cx opts st) =
     st\<lparr>now := now st + int (snd (provider (sent st) (now st) (n1qlRequest cx opts))),
        sent := sent st @ [n1qlRequest cx opts]\<rparr>"
  by (simp add: executeN1qlQuery_def DoHttpRequest_def n1qlRequest_def Let_def
      split: prod.splits sum.splits)

lemma executeN1qlQuery_response:
  assumes "provider (sent st) (now st) (n1qlRequest cx opts) = (Inr resp, lat)"
    and "RespBody resp = Inr n1qlResp"
  shows "executeN1qlQuery d provider cx opts st =
           (if Errors n1qlResp \<noteq> [] then Inl (N1qlMultiError (Errors n1qlResp))
            else Inr (newN1qlResults d resp n1qlResp),
            st\<lparr>now := now st + int lat, sent := sent st @ [n1qlRequest cx opts]\<rparr>)"
  using assms by (simp add: executeN1qlQuery_def DoHttpRequest_def n1qlRequest_def Let_def)

section \<open>Properties of the timeout and of the requests of a call\<close>

lemma queryTimeout_spec:
  assumes "\<forall>s e. qo ''timeout'' = Some (VStr s) \<longrightarrow> ParseDuration d s \<noteq> Inl e"
  shows "queryTimeout d dflt qo =
     Inr (specEffectiveTimeout dflt (specOverride d qo),
          qo(''timeout'' \<mapsto> VStr (DurationString d (specEffectiveTimeout dflt (specOverride d qo)))))"
proof (cases "\<exists>s. qo ''timeout'' = Some (VStr s)")
  case True
  then obtain s where s: "qo ''timeout'' = Some (VStr s)" by blast
  with assms obtain t where t: "ParseDuration d s = Inr t"
    by (cases "ParseDuration d s") auto
  show ?thesis
    by (auto simp: queryTimeout_def specOverride_def specEffectiveTimeout_def Let_def s t)
next
  case False
  then show ?thesis
    by (auto simp: queryTimeout_def specOverride_def specEffectiveTimeout_def Let_def
        split: option.splits gval.splits)
qed

lemma queryTimeout_parse_error:
  "qo ''timeout'' = Some (VStr s) \<Longrightarrow> ParseDuration d s = Inl e \<Longrightarrow>
     queryTimeout d dflt qo = Inl e"
  by (simp add: queryTimeout_def)

lemma usePlan_timeout: "usePlan plan qo ''timeout'' = qo ''timeout''"
  by (simp add: usePlan_def)

lemma prepareN1qlQuery_sent:
  "\<exists>xs. sent (snd (prepareN1qlQuery d provider cx opts st)) = sent st @ xs \<and>
        (\<forall>x\<in>set xs. Body x = opts)"
proof (cases "\<exists>s. opts ''statement'' = Some (VStr s)")
  case True
  then obtain s where s: "opts ''statement'' = Some (VStr s)" by blast
  have "snd (prepareN1qlQuery d provider cx opts st) = snd (executeN1qlQuery d provider cx opts st)"
    using s by (simp add: prepareN1qlQuery_def Let_def
        split: prod.splits sum.splits outcome.splits option.splits)
  then have "sent (snd (prepareN1qlQuery d provider cx opts st)) = sent st @ [n1qlRequest cx opts]"
    by (simp add: executeN1qlQuery_state)
  then show ?thesis by (simp add: n1qlRequest_def)
next
  case False
  then have "prepareN1qlQuery d provider cx opts st =
      (Panic ''interface conversion: interface {} is not string'', st)"
    by (auto simp: prepareN1qlQuery_def split: option.splits gval.splits)
  then show ?thesis by simp
qed

lemma prepareAndExecute_sent:
  assumes "prepareAndExecute d provider cx s qo st = (r, qo', st')"
  shows "qo' ''timeout'' = qo ''timeout'' \<and>
         (\<exists>xs. sent st' = sent st @ xs \<and> (\<forall>x\<in>set xs. Body x ''timeout'' = qo ''timeout''))"
proof -
  obtain pr st1 where p: "prepareN1qlQuery d provider cx qo st = (pr, st1)"
    by (cases "prepareN1qlQuery d provider cx qo st")
  from prepareN1qlQuery_sent [of d provider cx qo st] p
  obtain xs where xs: "sent st1 = sent st @ xs" "\<forall>x\<in>set xs. Body x = qo"
    by auto
  show ?thesis
  proof (cases pr)
    case (Panic m)
    with assms p xs show ?thesis by (auto simp: prepareAndExecute_def)
  next
    case (Ret a)
    show ?thesis
    proof (cases a)
      case (Inl e)
      with Ret assms p xs show ?thesis by (auto simp: prepareAndExecute_def)
    next
      case (Inr plan)
      let ?st2 = "st1\<lparr>queryCache := (queryCache st1)(s \<mapsto> plan)\<rparr>"
      have st': "st' = snd (executeN1qlQuery d provider cx (usePlan plan qo) ?st2)"
        and qo': "qo' = usePlan plan qo"
        using Inr Ret assms p by (auto simp: prepareAndExecute_def Let_def split: prod.splits)
      have "sent st' = sent st @ (xs @ [n1qlRequest cx (usePlan plan qo)])"
        unfolding st' by (simp add: executeN1qlQuery_state xs)
      moreover have "\<forall>x\<in>set (xs @ [n1qlRequest cx (usePlan plan qo)]).
          Body x ''timeout'' = qo ''timeout''"
        using xs by (auto simp: n1qlRequest_def usePlan_timeout)
      ultimately show ?thesis unfolding qo' by (metis usePlan_timeout)
    qed
  qed
qed

lemma doPreparedN1qlQuery_sent:
  assumes "doPreparedN1qlQuery d provider cx qo st = (r, qo', st')"
  shows "qo' ''timeout'' = qo ''timeout'' \<and>
         (\<exists>xs. sent st' = sent st @ xs \<and> (\<forall>x\<in>set xs. Body x ''timeout'' = qo ''timeout''))"
proof -
  let ?s = "case qo ''statement'' of Some (VStr s) \<Rightarrow> s | _ \<Rightarrow> []"
  show ?thesis
  proof (cases "queryCache st ?s")
    case None
    then have "prepareAndExecute d provider cx ?s qo st = (r, qo', st')"
      using assms by (simp add: doPreparedN1qlQuery_def Let_def)
    then show ?thesis by (rule prepareAndExecute_sent)
  next
    case (Some plan)
    obtain er st1 where ex: "executeN1qlQuery d provider cx (usePlan plan qo) st = (er, st1)"
      by (cases "executeN1qlQuery d provider cx (usePlan plan qo) st")
    then have "st1 = snd (executeN1qlQuery d provider cx (usePlan plan qo) st)" by simp
    then have st1: "sent st1 = sent st @ [n1qlRequest cx (usePlan plan qo)]"
      by (simp add: executeN1qlQuery_state)
    show ?thesis
    proof (cases "\<exists>e. er = Inl e \<and> isRetryableError d e")
      case False
      then have "qo' = usePlan plan qo \<and> st' = st1"
        using assms Some ex by (auto simp: doPreparedN1qlQuery_def Let_def split: sum.splits if_splits)
      then show ?thesis using st1 by (simp add: usePlan_timeout n1qlRequest_def)
    next
      case True
      then have "prepareAndExecute d provider cx ?s (usePlan plan qo) st1 = (r, qo', st')"
        using assms Some ex by (auto simp: doPreparedN1qlQuery_def Let_def)
      from prepareAndExecute_sent [OF this]
      obtain xs where "qo' ''timeout'' = qo ''timeout''" "sent st' = sent st1 @ xs"
        "\<forall>x\<in>set xs. Body x ''timeout'' = qo ''timeout''"
        by (auto simp: usePlan_timeout)
      then have "qo' ''timeout'' = qo ''timeout''"
        "sent st' = sent st @ (n1qlRequest cx (usePlan plan qo) # xs)"
        "\<forall>x\<in>set (n1qlRequest cx (usePlan plan qo) # xs). Body x ''timeout'' = qo ''timeout''"
        using st1 by (simp_all add: usePlan_timeout n1qlRequest_def)
      then show ?thesis by blast
    qed
  qed
qed

lemma unitOfWork_sent:
  assumes "unitOfWork d provider adhoc cx qo st = (r, qo', st')"
  shows "qo' ''timeout'' = qo ''timeout'' \<and>
         (\<exists>xs. sent st' = sent st @ xs \<and> (\<forall>x\<in>set xs. Body x ''timeout'' = qo ''timeout''))"
proof (cases adhoc)
  case False
  with assms show ?thesis by (simp add: unitOfWork_def doPreparedN1qlQuery_sent)
next
  case True
  with assms have "qo' = qo" "st' = snd (executeN1qlQuery d provider cx qo st)"
    by (auto simp: unitOfWork_def split: prod.splits)
  then show ?thesis by (simp add: executeN1qlQuery_state n1qlRequest_def)
qed

lemma queryLoop_sent:
  "\<exists>xs. sent (final (queryLoop fuel d c provider adhoc cx n e qo st)) = sent st @ xs \<and>
        (\<forall>x\<in>set xs. Body x ''timeout'' = qo ''timeout'')"
proof (induction fuel arbitrary: n e qo st)
  case 0
  show ?case by simp
next
  case (Suc fuel)
  show ?case
  proof (cases "Done cx (now st)")
    case True
    with Suc.IH [of n "Err cx (now st)" qo st] show ?thesis by simp
  next
    case False
    obtain r qo' st' where u: "unitOfWork d provider adhoc cx qo st = (r, qo', st')"
      by (cases "unitOfWork d provider adhoc cx qo st")
    from unitOfWork_sent [OF u]
    obtain xs where xs: "qo' ''timeout'' = qo ''timeout''" "sent st' = sent st @ xs"
      "\<forall>x\<in>set xs. Body x ''timeout'' = qo ''timeout''"
      by blast
    have stop: "\<exists>ys. sent st' = sent st @ ys \<and> (\<forall>x\<in>set ys. Body x ''timeout'' = qo ''timeout'')"
      using xs by blast
    show ?thesis
    proof (cases "\<exists>e' rb. r = Ret (Inl e') \<and> N1qlRetryBehavior c = Some rb \<and>
        isRetryableError d e' \<and> CanRetry rb (Suc n)")
      case True
      then obtain e' rb where t: "r = Ret (Inl e')" "N1qlRetryBehavior c = Some rb"
        "isRetryableError d e'" "CanRetry rb (Suc n)" by blast
      have eq: "queryLoop (Suc fuel) d c provider adhoc cx n e qo st =
          queryLoop fuel d c provider adhoc cx (Suc n) (Some e') qo'
            (Sleep (NextInterval rb (Suc n)) st')"
        using False u t by simp
      from Suc.IH [of "Suc n" "Some e'" qo' "Sleep (NextInterval rb (Suc n)) st'"]
      obtain ys where ys: "sent (final (queryLoop fuel d c provider adhoc cx (Suc n) (Some e') qo'
            (Sleep (NextInterval rb (Suc n)) st'))) = sent st' @ ys"
        "\<forall>x\<in>set ys. Body x ''timeout'' = qo ''timeout''"
        using xs by (auto simp: Sleep_def)
      have "sent (final (queryLoop (Suc fuel) d c provider adhoc cx n e qo st)) = sent st @ (xs @ ys)"
        unfolding eq using ys xs by simp
      moreover have "\<forall>x\<in>set (xs @ ys). Body x ''timeout'' = qo ''timeout''"
        using xs ys by auto
      ultimately show ?thesis by blast
    next
      case nt: False
      have "final (queryLoop (Suc fuel) d c provider adhoc cx n e qo st) = st'"
        using False u nt
        by (auto split: outcome.splits sum.splits option.splits)
      with stop show ?thesis by simp
    qed
  qed
qed

text \<open>
  C4, as amended: for every call whose options hold no string under
  \<^verbatim>\<open>"timeout"\<close> that fails to parse as a duration, the timeout is the override
  when there is one that is greater than zero and no larger than the default of the
  client, and the default otherwise; it is stored in the options under
  \<^verbatim>\<open>"timeout"\<close>, and every request that the call hands to the provider carries it
  there. A call whose options hold a string under \<^verbatim>\<open>"timeout"\<close> that does not
  parse returns the parse error, without an attempt and without a request.
\<close>

theorem effective_timeout:
  "((\<forall>s e. qo ''timeout'' = Some (VStr s) \<longrightarrow> ParseDuration d s \<noteq> Inl e) \<longrightarrow>
      queryTimeout d dflt qo =
        Inr (specEffectiveTimeout dflt (specOverride d qo),
             qo(''timeout'' \<mapsto>
                  VStr (DurationString d (specEffectiveTimeout dflt (specOverride d qo)))))) \<and>
   (createQueryOpts statement params opts = Inr qa \<and>
    (\<forall>s e. qa ''timeout'' = Some (VStr s) \<longrightarrow> ParseDuration d s \<noteq> Inl e) \<longrightarrow>
      (\<forall>req \<in> set (sentBetween st (final (query fuel d c cx statement params opts provider st))).
         Body req ''timeout'' =
           Some (VStr (DurationString d
                         (specEffectiveTimeout (n1qlTimeout c) (specOverride d qa)))))) \<and>
   (createQueryOpts bstatement bparams bopts = Inr qb \<and>
    qb ''timeout'' = Some (VStr str) \<and> ParseDuration d str = Inl perr \<longrightarrow>
      query fuel d c cx bstatement bparams bopts provider st =
        \<lparr>returned = Some (Ret (Inl perr)), retries = 0, errVar = Some perr,
         queryOpts = qb, final = st\<rparr>)"
proof (intro conjI impI)
  assume "\<forall>s e. qo ''timeout'' = Some (VStr s) \<longrightarrow> ParseDuration d s \<noteq> Inl e"
  then show "queryTimeout d dflt qo =
        Inr (specEffectiveTimeout dflt (specOverride d qo),
             qo(''timeout'' \<mapsto>
                  VStr (DurationString d (specEffectiveTimeout dflt (specOverride d qo)))))"
    by (rule queryTimeout_spec)
next
  assume a: "createQueryOpts statement params opts = Inr qa \<and>
    (\<forall>s e. qa ''timeout'' = Some (VStr s) \<longrightarrow> ParseDuration d s \<noteq> Inl e)"
  let ?t = "specEffectiveTimeout (n1qlTimeout c) (specOverride d qa)"
  let ?q = "qa(''timeout'' \<mapsto> VStr (DurationString d ?t))"
  let ?cx = "WithTimeout cx ?t (now st)"
  from a have p: "\<forall>s e. qa ''timeout'' = Some (VStr s) \<longrightarrow> ParseDuration d s \<noteq> Inl e"
    by blast
  have q: "query fuel d c cx statement params opts provider st =
      queryLoop fuel d c provider (adHoc opts) ?cx 0 None ?q st"
    using a by (simp add: query_def queryTimeout_spec [where qo = qa and d = d, OF p])
  from queryLoop_sent [of fuel d c provider "adHoc opts" ?cx 0 None ?q st]
  obtain xs where "sent (final (queryLoop fuel d c provider (adHoc opts) ?cx 0 None ?q st)) = sent st @ xs"
    "\<forall>x\<in>set xs. Body x ''timeout'' = ?q ''timeout''"
    by blast
  then show "\<forall>req \<in> set (sentBetween st (final (query fuel d c cx statement params opts provider st))).
         Body req ''timeout'' = Some (VStr (DurationString d ?t))"
    unfolding q by (simp add: sentBetween_def)
next
  assume b: "createQueryOpts bstatement bparams bopts = Inr qb \<and>
    qb ''timeout'' = Some (VStr str) \<and> ParseDuration d str = Inl perr"
  then have "queryTimeout d (n1qlTimeout c) qb = Inl perr"
    by (simp add: queryTimeout_parse_error)
  with b show "query fuel d c cx bstatement bparams bopts provider st =
        \<lparr>returned = Some (Ret (Inl perr)), retries = 0, errVar = Some perr,
         queryOpts = qb, final = st\<rparr>"
    by (simp add: query_def)
qed

theorem effective_timeout_witness:
  "queryTimeout exampleDeps 75000000000 [''statement'' \<mapsto> VStr ''SELECT 1'', ''timeout'' \<mapsto> VStr ''5ms'']
     = Inr (5000000, [''statement'' \<mapsto> VStr ''SELECT 1'', ''timeout'' \<mapsto> VStr ''5ms'']) \<and>
   map (\<lambda>req. Body req ''timeout'')
     (sentBetween emptyState
        (final (query 4 exampleDeps exampleCluster Background ''SELECT 1'' noParameters
                  (adHocOptions\<lparr>options := [(''timeout'', VStr ''5ms'')]\<rparr>)
                  (answering 200 (exampleResponse [''1''] []) 1) emptyState)))
     = [Some (VStr ''5ms'')] \<and>
   returned (query 4 exampleDeps exampleCluster Background ''SELECT 1'' noParameters
               (adHocOptions\<lparr>options := [(''timeout'', VStr ''bogus'')]\<rparr>)
               (answering 200 (exampleResponse [''1''] []) 1) emptyState)
     = Some (Ret (Inl (DurationError ''bogus'')))"
proof -
  have q: "\<And>fuel. sentBetween emptyState
        (final (query (Suc fuel) exampleDeps exampleCluster Background ''SELECT 1'' noParameters
                  (adHocOptions\<lparr>options := [(''timeout'', VStr ''5ms'')]\<rparr>)
                  (answering 200 (exampleResponse [''1''] []) 1) emptyState))
      = [n1qlRequest \<lparr>doneAt = Some 5000000, cause = DeadlineExceeded\<rparr>
           [''statement'' \<mapsto> VStr ''SELECT 1'', ''timeout'' \<mapsto> VStr ''5ms'']]"
    by (simp add: query_def createQueryOpts_def queryTimeout_def adHocOptions_def noParameters_def
        exampleDeps_def exampleCluster_def emptyState_def Background_def WithTimeout_def Done_def
        unitOfWork_def executeN1qlQuery_def DoHttpRequest_def answering_def exampleResponse_def
        sentBetween_def n1qlRequest_def Let_def)
  have four: "(4::nat) = Suc 3" by simp
  have five: "ParseDuration exampleDeps ''5ms'' = Inr 5000000"
    "ParseDuration exampleDeps ''bogus'' = Inl (DurationError ''bogus'')"
    "DurationString exampleDeps 5000000 = ''5ms''"
    by (simp_all add: exampleDeps_def)
  show ?thesis
    using effective_timeout [where d = exampleDeps and dflt = 75000000000
        and qo = "[''statement'' \<mapsto> VStr ''SELECT 1'', ''timeout'' \<mapsto> VStr ''5ms'']"
        and statement = "''SELECT 1''" and params = noParameters
        and opts = "adHocOptions\<lparr>options := [(''timeout'', VStr ''5ms'')]\<rparr>"
        and qa = "[''statement'' \<mapsto> VStr ''SELECT 1'', ''timeout'' \<mapsto> VStr ''5ms'']"
        and c = exampleCluster and cx = Background
        and fuel = 4 and provider = "answering 200 (exampleResponse [''1''] []) 1"
        and st = emptyState
        and bstatement = "''SELECT 1''" and bparams = noParameters
        and bopts = "adHocOptions\<lparr>options := [(''timeout'', VStr ''bogus'')]\<rparr>"
        and qb = "[''statement'' \<mapsto> VStr ''SELECT 1'', ''timeout'' \<mapsto> VStr ''bogus'']"
        and str = "''bogus''" and perr = "DurationError ''bogus''"]
    unfolding four q
    by (simp add: specOverride_def specEffectiveTimeout_def five exampleCluster_def
        createQueryOpts_def adHocOptions_def noParameters_def n1qlRequest_def)
qed

text \<open>
  Without the condition on the string the rule does not hold for every call: with
  \<^verbatim>\<open>"bogus"\<close> under \<^verbatim>\<open>"timeout"\<close> the rule of the specification gives the
  default of the client, but no timeout is chosen and none is stored; the call returns
  the parse error and hands no request to the provider.
\<close>

theorem effective_timeout_counterexample:
  "specEffectiveTimeout 75000000000
     (specOverride exampleDeps [''statement'' \<mapsto> VStr ''SELECT 1'', ''timeout'' \<mapsto> VStr ''bogus''])
     = 75000000000 \<and>
   queryTimeout exampleDeps 75000000000
     [''statement'' \<mapsto> VStr ''SELECT 1'', ''timeout'' \<mapsto> VStr ''bogus'']
     = Inl (DurationError ''bogus'') \<and>
   returned (query 4 exampleDeps exampleCluster Background ''SELECT 1'' noParameters
               (adHocOptions\<lparr>options := [(''timeout'', VStr ''bogus'')]\<rparr>)
               (answering 200 (exampleResponse [''1''] []) 1) emptyState)
     = Some (Ret (Inl (DurationError ''bogus''))) \<and>
   sent (final (query 4 exampleDeps exampleCluster Background ''SELECT 1'' noParameters
               (adHocOptions\<lparr>options := [(''timeout'', VStr ''bogus'')]\<rparr>)
               (answering 200 (exampleResponse [''1''] []) 1) emptyState)) = []"
  by (simp add: specEffectiveTimeout_def specOverride_def queryTimeout_def query_def
      createQueryOpts_def exampleDeps_def exampleCluster_def adHocOptions_def noParameters_def
      emptyState_def Let_def)

text \<open>
  C8: when the decoded response holds a non-empty error list, whatever the status,
  \<^verbatim>\<open>executeN1qlQuery\<close> returns no cursor but an \<^verbatim>\<open>n1qlMultiError\<close> that
  is the whole list; its \<^verbatim>\<open>Code\<close> is the code of the first error and its
  \<^verbatim>\<open>Error\<close> text is made of the code and the message of the first error.
\<close>

theorem error_list_surfaced:
  assumes "provider (sent st) (now st) (n1qlRequest cx opts) = (Inr resp, lat)"
    and "RespBody resp = Inr n1qlResp"
    and "Errors n1qlResp = e # es"
  shows "fst (executeN1qlQuery d provider cx opts st) = Inl (N1qlMultiError (e # es)) \<and>
         n1qlMultiError_Code (e # es) = Ret (Code e) \<and>
         n1qlMultiError_Error (e # es) = Ret (''['' @ decimal (unat (Code e)) @ ''] '' @ Message e)"
proof -
  from assms(1,2) have "executeN1qlQuery d provider cx opts st =
           (if Errors n1qlResp \<noteq> [] then Inl (N1qlMultiError (Errors n1qlResp))
            else Inr (newN1qlResults d resp n1qlResp),
            st\<lparr>now := now st + int lat, sent := sent st @ [n1qlRequest cx opts]\<rparr>)"
    by (rule executeN1qlQuery_response)
  with assms(3) show ?thesis
    by (simp add: n1qlMultiError_Code_def n1qlMultiError_Error_def n1qlError_Error_def)
qed

theorem error_list_surfaced_witness:
  "fst (executeN1qlQuery exampleDeps (answering 200 (exampleResponse [''1''] exampleErrors) 1)
          Background [''statement'' \<mapsto> VStr ''SELECT 1''] emptyState)
     = Inl (N1qlMultiError exampleErrors) \<and>
   n1qlMultiError_Code exampleErrors = Ret 4050 \<and>
   n1qlMultiError_Error exampleErrors = Ret ''[4050] no such plan''"
proof -
  have d: "decimal 4050 = ''4050''"
    by (simp add: decimal.simps [of 4050] decimal.simps [of 405] decimal.simps [of 40]
        decimal.simps [of 4])
  show ?thesis
    using error_list_surfaced [where provider = "answering 200 (exampleResponse [''1''] exampleErrors) 1"
        and st = emptyState and cx = Background and opts = "[''statement'' \<mapsto> VStr ''SELECT 1'']"
        and resp = "\<lparr>StatusCode = 200, Endpoint = ''host:8093'',
                      RespBody = Inr (exampleResponse [''1''] exampleErrors)\<rparr>"
        and lat = 1 and ?n1qlResp.0 = "exampleResponse [''1''] exampleErrors"
        and e = "\<lparr>Code = 4050, Message = ''no such plan''\<rparr>"
        and es = "[\<lparr>Code = 5000, Message = ''busy''\<rparr>]" and d = exampleDeps]
    by (simp add: answering_def exampleResponse_def exampleErrors_def d)
qed

text \<open>
  C9 (the code departs from it): for a response with a status other than 200 and an
  empty error list, \<^verbatim>\<open>executeN1qlQuery\<close> returns a cursor and no error.
\<close>

theorem status_not_200_returns_cursor:
  assumes "provider (sent st) (now st) (n1qlRequest cx opts) = (Inr resp, lat)"
    and "RespBody resp = Inr n1qlResp"
    and "Errors n1qlResp = []"
    and "StatusCode resp \<noteq> 200"
  shows "fst (executeN1qlQuery d provider cx opts st) = Inr (newN1qlResults d resp n1qlResp)"
proof -
  from assms(1,2) have "executeN1qlQuery d provider cx opts st =
           (if Errors n1qlResp \<noteq> [] then Inl (N1qlMultiError (Errors n1qlResp))
            else Inr (newN1qlResults d resp n1qlResp),
            st\<lparr>now := now st + int lat, sent := sent st @ [n1qlRequest cx opts]\<rparr>)"
    by (rule executeN1qlQuery_response)
  with assms(3) show ?thesis by simp
qed

theorem status_not_200_returns_cursor_witness:
  "\<exists>r. fst (executeN1qlQuery exampleDeps (answering 500 (exampleResponse [] []) 1)
          Background [''statement'' \<mapsto> VStr ''SELECT 1''] emptyState) = Inr r \<and>
       rows r = [] \<and> err r = None"
  using status_not_200_returns_cursor [where provider = "answering 500 (exampleResponse [] []) 1"
      and st = emptyState and cx = Background and opts = "[''statement'' \<mapsto> VStr ''SELECT 1'']"
      and resp = "\<lparr>StatusCode = 500, Endpoint = ''host:8093'', RespBody = Inr (exampleResponse [] [])\<rparr>"
      and lat = 1 and ?n1qlResp.0 = "exampleResponse [] []" and d = exampleDeps]
  by (simp add: answering_def exampleResponse_def newN1qlResults_def)

text \<open>
  C6 (the code departs from it): when the parameters of a call hold positional values,
  the entry stored under \<^verbatim>\<open>"args"\<close> is the positional field of the options, not
  the values of the parameters; and named values of the parameters add no entry when
  the options hold no named values.
\<close>

theorem createQueryOpts_args_from_options:
  "(positionalParams params = Some vs \<longrightarrow>
      (\<exists>m. createQueryOpts statement params opts = Inr m \<and>
           m ''args'' = Some (sliceValue (positionalParamsO opts)))) \<and>
   (positionalParams nparams = None \<and> namedParams nparams = Some kvs \<and>
    namedParamsO opts = None \<longrightarrow>
      createQueryOpts statement nparams opts =
        createQueryOpts statement \<lparr>positionalParams = None, namedParams = None\<rparr> opts)"
proof (intro conjI impI)
  assume "positionalParams params = Some vs"
  then show "\<exists>m. createQueryOpts statement params opts = Inr m \<and>
           m ''args'' = Some (sliceValue (positionalParamsO opts))"
    by (simp add: createQueryOpts_def Let_def)
next
  assume "positionalParams nparams = None \<and> namedParams nparams = Some kvs \<and>
    namedParamsO opts = None"
  then show "createQueryOpts statement nparams opts =
        createQueryOpts statement \<lparr>positionalParams = None, namedParams = None\<rparr> opts"
    by (simp add: createQueryOpts_def entries_def Let_def)
qed

theorem createQueryOpts_args_from_options_witness:
  "(\<exists>m. createQueryOpts ''SELECT $1'' \<lparr>positionalParams = Some [VNum 1], namedParams = None\<rparr>
          \<lparr>options = [], positionalParamsO = None, namedParamsO = None, adHoc = False, ctx = None\<rparr>
        = Inr m \<and> m ''args'' = Some VNull \<and> m ''args'' \<noteq> Some (VList [VNum 1])) \<and>
   (\<exists>m. createQueryOpts ''SELECT $x''
          \<lparr>positionalParams = None, namedParams = Some [(''x'', VNum 1)]\<rparr>
          \<lparr>options = [], positionalParamsO = None, namedParamsO = None, adHoc = False, ctx = None\<rparr>
        = Inr m \<and> m ''$x'' = None)"
  using createQueryOpts_args_from_options [where params = "\<lparr>positionalParams = Some [VNum 1], namedParams = None\<rparr>"
      and vs = "[VNum 1]" and statement = "''SELECT $1''"
      and opts = "\<lparr>options = [], positionalParamsO = None, namedParamsO = None, adHoc = False, ctx = None\<rparr>"
      and nparams = "\<lparr>positionalParams = None, namedParams = Some [(''x'', VNum 1)]\<rparr>"
      and kvs = "[(''x'', VNum 1)]"]
    createQueryOpts_args_from_options [where params = "\<lparr>positionalParams = Some [VNum 1], namedParams = None\<rparr>"
      and vs = "[VNum 1]" and statement = "''SELECT $x''"
      and opts = "\<lparr>options = [], positionalParamsO = None, namedParamsO = None, adHoc = False, ctx = None\<rparr>"
      and nparams = "\<lparr>positionalParams = None, namedParams = Some [(''x'', VNum 1)]\<rparr>"
      and kvs = "[(''x'', VNum 1)]"]
  by (auto simp: sliceValue_def createQueryOpts_def)

text \<open>
  C3 (the code departs from it): \<^verbatim>\<open>prepareN1qlQuery\<close> hands exactly one request
  to the provider, and its body is the options map it was given, so the statement
  field is the statement itself, without \<^verbatim>\<open>"PREPARE "\<close> in front.
\<close>

theorem prepare_sends_raw_statement:
  "opts ''statement'' = Some (VStr s) \<Longrightarrow>
     \<exists>req. sent (snd (prepareN1qlQuery d provider cx opts st)) = sent st @ [req] \<and>
           Body req = opts \<and> Body req ''statement'' = Some (VStr s) \<and>
           Body req ''statement'' \<noteq> Some (VStr (''PREPARE '' @ s))"
proof -
  assume a: "opts ''statement'' = Some (VStr s)"
  have "snd (prepareN1qlQuery d provider cx opts st) = snd (executeN1qlQuery d provider cx opts st)"
    using a by (simp add: prepareN1qlQuery_def Let_def
        split: prod.splits sum.splits outcome.splits option.splits)
  then have "sent (snd (prepareN1qlQuery d provider cx opts st)) = sent st @ [n1qlRequest cx opts]"
    by (simp add: executeN1qlQuery_state)
  moreover have "Body (n1qlRequest cx opts) = opts" by (simp add: n1qlRequest_def)
  ultimately show ?thesis using a by simp
qed

theorem prepare_sends_raw_statement_witness:
  "map (\<lambda>req. Body req ''statement'')
     (sent (snd (prepareN1qlQuery exampleDeps (answering 200 (exampleResponse [''row''] []) 1)
                   Background [''statement'' \<mapsto> VStr ''SELECT 1''] emptyState)))
     = [Some (VStr ''SELECT 1'')]"
  using prepare_sends_raw_statement [where opts = "[''statement'' \<mapsto> VStr ''SELECT 1'']"
      and s = "''SELECT 1''" and d = exampleDeps
      and provider = "answering 200 (exampleResponse [''row''] []) 1"
      and cx = Background and st = emptyState]
  by (auto simp: emptyState_def)

lemma prepare_without_statement:
  "opts ''statement'' = None \<Longrightarrow>
     prepareN1qlQuery d provider cx opts st =
       (Panic ''interface conversion: interface {} is not string'', st)"
  by (simp add: prepareN1qlQuery_def)

lemma usePlan_statement: "usePlan plan qo ''statement'' = None"
  by (simp add: usePlan_def)

text \<open>
  C2 (the code departs from it): when the statement has a cached plan and the
  execution of the plan fails with a retryable error, \<^verbatim>\<open>doPreparedN1qlQuery\<close>
  panics in \<^verbatim>\<open>prepareN1qlQuery\<close>, because the statement has been deleted from
  the options: the only request made is the execution of the cached plan, and the
  plan cache is as before.
\<close>

theorem invalidated_plan_panics:
  assumes "qo ''statement'' = Some (VStr s)"
    and "queryCache st s = Some plan"
    and "executeN1qlQuery d provider cx (usePlan plan qo) st = (Inl e, st')"
    and "isRetryableError d e"
  shows "doPreparedN1qlQuery d provider cx qo st =
           (Panic ''interface conversion: interface {} is not string'', usePlan plan qo, st') \<and>
         sent st' = sent st @ [n1qlRequest cx (usePlan plan qo)] \<and>
         queryCache st' = queryCache st"
proof -
  have "st' = snd (executeN1qlQuery d provider cx (usePlan plan qo) st)"
    using assms(3) by simp
  then have st': "sent st' = sent st @ [n1qlRequest cx (usePlan plan qo)]"
    "queryCache st' = queryCache st"
    by (simp_all add: executeN1qlQuery_state)
  have "prepareAndExecute d provider cx s (usePlan plan qo) st' =
      (Panic ''interface conversion: interface {} is not string'', usePlan plan qo, st')"
    by (simp add: prepareAndExecute_def prepare_without_statement usePlan_statement)
  then have "doPreparedN1qlQuery d provider cx qo st =
      (Panic ''interface conversion: interface {} is not string'', usePlan plan qo, st')"
    using assms by (simp add: doPreparedN1qlQuery_def Let_def)
  with st' show ?thesis by simp
qed

theorem invalidated_plan_panics_witness:
  "fst (doPreparedN1qlQuery exampleDeps (answering 200 (exampleResponse [] exampleErrors) 1)
          Background [''statement'' \<mapsto> VStr ''SELECT 1''] cachedState)
     = Panic ''interface conversion: interface {} is not string'' \<and>
   map (\<lambda>req. (Body req ''statement'', Body req ''prepared''))
     (sent (snd (snd (doPreparedN1qlQuery exampleDeps (answering 200 (exampleResponse [] exampleErrors) 1)
          Background [''statement'' \<mapsto> VStr ''SELECT 1''] cachedState))))
     = [(None, Some (VStr ''p1''))] \<and>
   queryCache (snd (snd (doPreparedN1qlQuery exampleDeps (answering 200 (exampleResponse [] exampleErrors) 1)
          Background [''statement'' \<mapsto> VStr ''SELECT 1''] cachedState))) ''SELECT 1''
     = Some \<lparr>name = ''p1'', encodedPlan = ''e1''\<rparr>"
  using invalidated_plan_panics [where qo = "[''statement'' \<mapsto> VStr ''SELECT 1'']"
      and s = "''SELECT 1''" and st = cachedState
      and plan = "\<lparr>name = ''p1'', encodedPlan = ''e1''\<rparr>"
      and d = exampleDeps and provider = "answering 200 (exampleResponse [] exampleErrors) 1"
      and cx = Background and e = "N1qlMultiError exampleErrors"
      and st' = "snd (executeN1qlQuery exampleDeps (answering 200 (exampleResponse [] exampleErrors) 1)
           Background (usePlan \<lparr>name = ''p1'', encodedPlan = ''e1''\<rparr> [''statement'' \<mapsto> VStr ''SELECT 1'']) cachedState)"]
  by (simp add: cachedState_def exampleDeps_def exampleErrors_def exampleResponse_def answering_def
      executeN1qlQuery_def DoHttpRequest_def Let_def n1qlRequest_def usePlan_def)

section \<open>Properties of the retry loop\<close>

lemma queryLoop_spin:
  "Done cx (now st) \<Longrightarrow>
     queryLoop fuel d c provider adhoc cx n e qo st =
       \<lparr>returned = None, retries = n,
        errVar = (if fuel = 0 then e else Some (cause cx)),
        queryOpts = qo, final = st\<rparr>"
  by (induction fuel arbitrary: e) (simp_all add: Err_def)

lemma queryLoop_fail_last:
  assumes "\<not> Done cx (now st)"
    and "unitOfWork d provider adhoc cx qo st = (Ret (Inl e'), qo', st')"
    and "case N1qlRetryBehavior c of
           None \<Rightarrow> True
         | Some rb \<Rightarrow> \<not> isRetryableError d e' \<or> \<not> CanRetry rb (Suc n)"
  shows "queryLoop (Suc fuel) d c provider adhoc cx n e qo st =
           \<lparr>returned = Some (Ret (Inl e')), retries = Suc n, errVar = Some e',
            queryOpts = qo', final = st'\<rparr>"
  using assms by (cases "N1qlRetryBehavior c") simp_all

lemma queryLoop_fail_retry:
  assumes "\<not> Done cx (now st)"
    and "unitOfWork d provider adhoc cx qo st = (Ret (Inl e'), qo', st')"
    and "N1qlRetryBehavior c = Some rb"
    and "isRetryableError d e'"
    and "CanRetry rb (Suc n)"
  shows "queryLoop (Suc fuel) d c provider adhoc cx n e qo st =
           queryLoop fuel d c provider adhoc cx (Suc n) (Some e') qo'
             (Sleep (NextInterval rb (Suc n)) st')"
  using assms by simp

lemma WithTimeout_Done: "Done cx t \<Longrightarrow> Done (WithTimeout cx timeout t) t"
  by (auto simp: Done_def WithTimeout_def Let_def split: option.splits)

text \<open>
  C1 (the code departs from it): when the context is done at the top of an iteration,
  the loop makes no further attempt, but it does not return either: it stores the error
  of the context in \<^verbatim>\<open>err\<close> and goes round again, for as many iterations as one
  cares to look at. The attempt count, the options and the state stay as they are.
\<close>

theorem expired_context_never_returns:
  "Done cx (now st) \<Longrightarrow>
     queryLoop fuel d c provider adhoc cx n e qo st =
       \<lparr>returned = None, retries = n,
        errVar = (if fuel = 0 then e else Err cx (now st)),
        queryOpts = qo, final = st\<rparr>"
proof (induction fuel arbitrary: e)
  case 0
  show ?case by simp
next
  case (Suc fuel)
  have "queryLoop (Suc fuel) d c provider adhoc cx n e qo st =
      queryLoop fuel d c provider adhoc cx n (Err cx (now st)) qo st"
    using Suc.prems by simp
  also have "\<dots> = \<lparr>returned = None, retries = n,
        errVar = (if fuel = 0 then Err cx (now st) else Err cx (now st)),
        queryOpts = qo, final = st\<rparr>"
    using Suc.IH [OF Suc.prems, of "Err cx (now st)"] .
  finally show ?case by simp
qed

theorem expired_context_never_returns_witness:
  "returned (query 1000 exampleDeps exampleCluster expiredContext ''SELECT 1'' noParameters
               adHocOptions (answering 200 (exampleResponse [''1''] []) 1) emptyState) = None \<and>
   sent (final (query 1000 exampleDeps exampleCluster expiredContext ''SELECT 1'' noParameters
               adHocOptions (answering 200 (exampleResponse [''1''] []) 1) emptyState)) = []"
proof -
  have q: "query 1000 exampleDeps exampleCluster expiredContext ''SELECT 1'' noParameters
               adHocOptions (answering 200 (exampleResponse [''1''] []) 1) emptyState =
      queryLoop 1000 exampleDeps exampleCluster (answering 200 (exampleResponse [''1''] []) 1) True
        (WithTimeout expiredContext 75000000000 0) 0 None
        [''statement'' \<mapsto> VStr ''SELECT 1'', ''timeout'' \<mapsto> VStr ''1m15s''] emptyState"
    by (simp add: query_def createQueryOpts_def queryTimeout_def adHocOptions_def noParameters_def
        exampleDeps_def exampleCluster_def emptyState_def Let_def)
  have dn: "Done (WithTimeout expiredContext 75000000000 0) (now emptyState)"
    by (simp add: Done_def WithTimeout_def expiredContext_def emptyState_def)
  show ?thesis
    unfolding q
    using expired_context_never_returns [OF dn, where fuel = 1000 and d = exampleDeps
        and c = exampleCluster and provider = "answering 200 (exampleResponse [''1''] []) 1"
        and adhoc = True and n = 0 and e = None
        and qo = "[''statement'' \<mapsto> VStr ''SELECT 1'', ''timeout'' \<mapsto> VStr ''1m15s'']"]
    by (simp add: emptyState_def)
qed

text \<open>
  C5, as amended: let the context not be done at the top of the iterations concerned.
  If the unit of work fails with a retryable error at each of the first three attempts
  and the retry behaviour allows a retry exactly for attempt counts up to 2, the loop
  returns after exactly three attempts, with the error of the third. If the cluster has
  no retry behaviour and the first attempt fails, the loop returns after exactly one
  attempt, with its error.
\<close>

theorem retry_attempts:
  "(N1qlRetryBehavior c = Some rb \<and> (\<forall>n. CanRetry rb n = (n \<le> 2)) \<and>
    \<not> Done cx (now s) \<and>
    unitOfWork d provider adhoc cx q s = (Ret (Inl ea), qa, sa) \<and> isRetryableError d ea \<and>
    \<not> Done cx (now (Sleep (NextInterval rb 1) sa)) \<and>
    unitOfWork d provider adhoc cx qa (Sleep (NextInterval rb 1) sa) = (Ret (Inl eb), qb, sb) \<and>
    isRetryableError d eb \<and>
    \<not> Done cx (now (Sleep (NextInterval rb 2) sb)) \<and>
    unitOfWork d provider adhoc cx qb (Sleep (NextInterval rb 2) sb) = (Ret (Inl ec), qc, sc) \<and>
    isRetryableError d ec
    \<longrightarrow> queryLoop (3 + k) d c provider adhoc cx 0 e q s =
          \<lparr>returned = Some (Ret (Inl ec)), retries = 3, errVar = Some ec,
           queryOpts = qc, final = sc\<rparr>) \<and>
   (N1qlRetryBehavior cn = None \<and> \<not> Done cx (now s) \<and>
    unitOfWork d provider adhoc cx q s = (Ret (Inl ea), qa, sa)
    \<longrightarrow> queryLoop (1 + k) d cn provider adhoc cx 0 e q s =
          \<lparr>returned = Some (Ret (Inl ea)), retries = 1, errVar = Some ea,
           queryOpts = qa, final = sa\<rparr>)"
proof (intro conjI impI)
  assume a: "N1qlRetryBehavior c = Some rb \<and> (\<forall>n. CanRetry rb n = (n \<le> 2)) \<and>
    \<not> Done cx (now s) \<and>
    unitOfWork d provider adhoc cx q s = (Ret (Inl ea), qa, sa) \<and> isRetryableError d ea \<and>
    \<not> Done cx (now (Sleep (NextInterval rb 1) sa)) \<and>
    unitOfWork d provider adhoc cx qa (Sleep (NextInterval rb 1) sa) = (Ret (Inl eb), qb, sb) \<and>
    isRetryableError d eb \<and>
    \<not> Done cx (now (Sleep (NextInterval rb 2) sb)) \<and>
    unitOfWork d provider adhoc cx qb (Sleep (NextInterval rb 2) sb) = (Ret (Inl ec), qc, sc) \<and>
    isRetryableError d ec"
  have k: "3 + k = Suc (Suc (Suc k))" by simp
  have can: "CanRetry rb (Suc 0)" "CanRetry rb (Suc (Suc 0))" "\<not> CanRetry rb (Suc (Suc (Suc 0)))"
    using a by simp_all
  have "queryLoop (Suc (Suc (Suc k))) d c provider adhoc cx 0 e q s =
        queryLoop (Suc (Suc k)) d c provider adhoc cx (Suc 0) (Some ea) qa
          (Sleep (NextInterval rb (Suc 0)) sa)"
    using a can by (intro queryLoop_fail_retry) simp_all
  also have "\<dots> = queryLoop (Suc k) d c provider adhoc cx (Suc (Suc 0)) (Some eb) qb
          (Sleep (NextInterval rb (Suc (Suc 0))) sb)"
    using a can by (intro queryLoop_fail_retry) (simp_all add: numeral_2_eq_2)
  also have "\<dots> = \<lparr>returned = Some (Ret (Inl ec)), retries = Suc (Suc (Suc 0)), errVar = Some ec,
           queryOpts = qc, final = sc\<rparr>"
    using a can by (intro queryLoop_fail_last) (simp_all add: numeral_2_eq_2)
  finally show "queryLoop (3 + k) d c provider adhoc cx 0 e q s =
          \<lparr>returned = Some (Ret (Inl ec)), retries = 3, errVar = Some ec,
           queryOpts = qc, final = sc\<rparr>"
    by (simp add: k numeral_3_eq_3)
next
  assume a: "N1qlRetryBehavior cn = None \<and> \<not> Done cx (now s) \<and>
    unitOfWork d provider adhoc cx q s = (Ret (Inl ea), qa, sa)"
  then show "queryLoop (1 + k) d cn provider adhoc cx 0 e q s =
          \<lparr>returned = Some (Ret (Inl ea)), retries = 1, errVar = Some ea,
           queryOpts = qa, final = sa\<rparr>"
    by simp
qed

lemma example_unitOfWork:
  "unitOfWork exampleDeps (answering 200 (exampleResponse [] exampleErrors) 10) True cx q st =
     (Ret (Inl (N1qlMultiError exampleErrors)), q,
      st\<lparr>now := now st + 10, sent := sent st @ [n1qlRequest cx q]\<rparr>)"
  by (simp add: unitOfWork_def executeN1qlQuery_def DoHttpRequest_def answering_def
      exampleResponse_def exampleErrors_def n1qlRequest_def Let_def)

lemma example_retryable: "isRetryableError exampleDeps (N1qlMultiError exampleErrors)"
  by (simp add: exampleDeps_def exampleErrors_def)

theorem retry_attempts_witness:
  "returned (queryLoop 7 exampleDeps exampleCluster (answering 200 (exampleResponse [] exampleErrors) 10)
       True \<lparr>doneAt = Some 1000, cause = DeadlineExceeded\<rparr> 0 None
       [''statement'' \<mapsto> VStr ''SELECT 1''] emptyState)
     = Some (Ret (Inl (N1qlMultiError exampleErrors))) \<and>
   retries (queryLoop 7 exampleDeps exampleCluster (answering 200 (exampleResponse [] exampleErrors) 10)
       True \<lparr>doneAt = Some 1000, cause = DeadlineExceeded\<rparr> 0 None
       [''statement'' \<mapsto> VStr ''SELECT 1''] emptyState) = 3 \<and>
   length (sent (final (queryLoop 7 exampleDeps exampleCluster (answering 200 (exampleResponse [] exampleErrors) 10)
       True \<lparr>doneAt = Some 1000, cause = DeadlineExceeded\<rparr> 0 None
       [''statement'' \<mapsto> VStr ''SELECT 1''] emptyState))) = 3 \<and>
   returned (queryLoop 7 exampleDeps plainCluster (answering 200 (exampleResponse [] exampleErrors) 10)
       True \<lparr>doneAt = Some 1000, cause = DeadlineExceeded\<rparr> 0 None
       [''statement'' \<mapsto> VStr ''SELECT 1''] emptyState)
     = Some (Ret (Inl (N1qlMultiError exampleErrors))) \<and>
   retries (queryLoop 7 exampleDeps plainCluster (answering 200 (exampleResponse [] exampleErrors) 10)
       True \<lparr>doneAt = Some 1000, cause = DeadlineExceeded\<rparr> 0 None
       [''statement'' \<mapsto> VStr ''SELECT 1''] emptyState) = 1"
proof -
  let ?cx = "\<lparr>doneAt = Some 1000, cause = DeadlineExceeded\<rparr>"
  let ?q = "[''statement'' \<mapsto> VStr ''SELECT 1'']"
  let ?r = "n1qlRequest ?cx ?q"
  have seven: "(7::nat) = 3 + 4" "(7::nat) = 1 + 6" by simp_all
  show ?thesis
    using retry_attempts [where c = exampleCluster and rb = twoRetries and cx = ?cx
        and s = emptyState and d = exampleDeps
        and provider = "answering 200 (exampleResponse [] exampleErrors) 10" and adhoc = True
        and q = ?q and qa = ?q and qb = ?q and qc = ?q
        and ea = "N1qlMultiError exampleErrors" and eb = "N1qlMultiError exampleErrors"
        and ec = "N1qlMultiError exampleErrors"
        and sa = "\<lparr>queryCache = Map.empty, now = 10, sent = [?r]\<rparr>"
        and sb = "\<lparr>queryCache = Map.empty, now = 21, sent = [?r, ?r]\<rparr>"
        and sc = "\<lparr>queryCache = Map.empty, now = 32, sent = [?r, ?r, ?r]\<rparr>"
        and cn = plainCluster and e = None and k = 4]
      retry_attempts [where c = exampleCluster and rb = twoRetries and cx = ?cx
        and s = emptyState and d = exampleDeps
        and provider = "answering 200 (exampleResponse [] exampleErrors) 10" and adhoc = True
        and q = ?q and qa = ?q and qb = ?q and qc = ?q
        and ea = "N1qlMultiError exampleErrors" and eb = "N1qlMultiError exampleErrors"
        and ec = "N1qlMultiError exampleErrors"
        and sa = "\<lparr>queryCache = Map.empty, now = 10, sent = [?r]\<rparr>"
        and sb = "\<lparr>queryCache = Map.empty, now = 21, sent = [?r, ?r]\<rparr>"
        and sc = "\<lparr>queryCache = Map.empty, now = 32, sent = [?r, ?r, ?r]\<rparr>"
        and cn = plainCluster and e = None and k = 6]
    unfolding seven [symmetric]
    by (simp add: example_unitOfWork example_retryable exampleCluster_def plainCluster_def
        twoRetries_def emptyState_def Done_def Sleep_def)
qed

text \<open>
  Without the condition on the context the count of attempts is not three: with a
  timeout of 5 and a provider that takes 10 to answer with a retryable error, one
  attempt is made, and twenty iterations later the call has still not returned.
\<close>

theorem retry_attempts_counterexample:
  "returned (query 20 exampleDeps hastyCluster Background ''SELECT 1'' noParameters adHocOptions
               (answering 200 (exampleResponse [] exampleErrors) 10) emptyState) = None \<and>
   retries (query 20 exampleDeps hastyCluster Background ''SELECT 1'' noParameters adHocOptions
               (answering 200 (exampleResponse [] exampleErrors) 10) emptyState) = 1"
proof -
  have "\<And>fuel.
    returned (query (Suc fuel) exampleDeps hastyCluster Background ''SELECT 1'' noParameters adHocOptions
               (answering 200 (exampleResponse [] exampleErrors) 10) emptyState) = None \<and>
    retries (query (Suc fuel) exampleDeps hastyCluster Background ''SELECT 1'' noParameters adHocOptions
               (answering 200 (exampleResponse [] exampleErrors) 10) emptyState) = 1"
    by (simp add: query_def createQueryOpts_def queryTimeout_def adHocOptions_def noParameters_def
        hastyCluster_def twoRetries_def Background_def WithTimeout_def Let_def
        example_unitOfWork example_retryable queryLoop_spin Done_def Sleep_def emptyState_def)
  from this [of 19] show ?thesis by simp
qed

end
